theory Spec2Isabelle
  imports Complex_Main "HOL-Library.Multiset"
begin

section \<open>Numbers and price points\<close>

text \<open>
  A JavaScript \<open>number\<close> is modelled as a real number or one of the three special
  values. The sign of zero is left out. The operations of this section are the exact
  ones; the arithmetic of doubles, which rounds their results, is built on them
  further down (\<open>plusDouble\<close> and its companions).
\<close>

datatype jsnum = Num real | PosInf | NegInf | NaN

text \<open>\<open>isNaN(x)\<close> on a number.\<close>

fun isNaN :: "jsnum \<Rightarrow> bool" where
  "isNaN NaN = True"
| "isNaN _ = False"

text \<open>Truthiness of a number: \<open>0\<close> and \<open>NaN\<close> are falsy.\<close>

fun truthy :: "jsnum \<Rightarrow> bool" where
  "truthy (Num x) = (x \<noteq> 0)"
| "truthy NaN = False"
| "truthy _ = True"

text \<open>\<open>a || b\<close> on numbers.\<close>

definition orElse :: "jsnum \<Rightarrow> jsnum \<Rightarrow> jsnum" where
  "orElse a b = (if truthy a then a else b)"

text \<open>\<open>a || b\<close> where \<open>a\<close> may be \<open>undefined\<close>.\<close>

definition optOrElse :: "jsnum option \<Rightarrow> jsnum \<Rightarrow> jsnum" where
  "optOrElse a b = (case a of None \<Rightarrow> b | Some v \<Rightarrow> orElse v b)"

fun jneg :: "jsnum \<Rightarrow> jsnum" where
  "jneg (Num a) = Num (- a)"
| "jneg PosInf = NegInf"
| "jneg NegInf = PosInf"
| "jneg NaN = NaN"

fun jplus :: "jsnum \<Rightarrow> jsnum \<Rightarrow> jsnum" where
  "jplus (Num a) (Num b) = Num (a + b)"
| "jplus NaN _ = NaN"
| "jplus _ NaN = NaN"
| "jplus PosInf NegInf = NaN"
| "jplus NegInf PosInf = NaN"
| "jplus PosInf _ = PosInf"
| "jplus _ PosInf = PosInf"
| "jplus NegInf _ = NegInf"
| "jplus _ NegInf = NegInf"

definition jminus :: "jsnum \<Rightarrow> jsnum \<Rightarrow> jsnum" where
  "jminus a b = jplus a (jneg b)"

fun jtimes :: "jsnum \<Rightarrow> jsnum \<Rightarrow> jsnum" where
  "jtimes (Num a) (Num b) = Num (a * b)"
| "jtimes NaN _ = NaN"
| "jtimes _ NaN = NaN"
| "jtimes PosInf (Num b) = (if b = 0 then NaN else if 0 < b then PosInf else NegInf)"
| "jtimes NegInf (Num b) = (if b = 0 then NaN else if 0 < b then NegInf else PosInf)"
| "jtimes (Num a) PosInf = (if a = 0 then NaN else if 0 < a then PosInf else NegInf)"
| "jtimes (Num a) NegInf = (if a = 0 then NaN else if 0 < a then NegInf else PosInf)"
| "jtimes PosInf PosInf = PosInf"
| "jtimes PosInf NegInf = NegInf"
| "jtimes NegInf PosInf = NegInf"
| "jtimes NegInf NegInf = PosInf"

text \<open>Division; a zero divisor is taken as positive zero.\<close>

fun jdiv :: "jsnum \<Rightarrow> jsnum \<Rightarrow> jsnum" where
  "jdiv (Num a) (Num b) =
     (if b \<noteq> 0 then Num (a / b)
      else if a = 0 then NaN else if 0 < a then PosInf else NegInf)"
| "jdiv NaN _ = NaN"
| "jdiv _ NaN = NaN"
| "jdiv (Num a) _ = Num 0"
| "jdiv PosInf (Num b) = (if 0 \<le> b then PosInf else NegInf)"
| "jdiv NegInf (Num b) = (if 0 \<le> b then NegInf else PosInf)"
| "jdiv _ _ = NaN"

text \<open>\<open>a >= b\<close>.\<close>

fun jge :: "jsnum \<Rightarrow> jsnum \<Rightarrow> bool" where
  "jge (Num a) (Num b) = (b \<le> a)"
| "jge NaN _ = False"
| "jge _ NaN = False"
| "jge PosInf _ = True"
| "jge _ NegInf = True"
| "jge _ _ = False"

text \<open>\<open>a > 0\<close>, the test a sort makes on a comparator's result.\<close>

fun jpositive :: "jsnum \<Rightarrow> bool" where
  "jpositive (Num a) = (0 < a)"
| "jpositive PosInf = True"
| "jpositive _ = False"

text \<open>One step of \<open>Math.min\<close> and of \<open>Math.max\<close>: \<open>NaN\<close> wins over everything.\<close>

fun jmin :: "jsnum \<Rightarrow> jsnum \<Rightarrow> jsnum" where
  "jmin (Num a) (Num b) = Num (min a b)"
| "jmin NaN _ = NaN"
| "jmin _ NaN = NaN"
| "jmin NegInf _ = NegInf"
| "jmin _ NegInf = NegInf"
| "jmin PosInf b = b"
| "jmin a PosInf = a"

fun jmax :: "jsnum \<Rightarrow> jsnum \<Rightarrow> jsnum" where
  "jmax (Num a) (Num b) = Num (max a b)"
| "jmax NaN _ = NaN"
| "jmax _ NaN = NaN"
| "jmax PosInf _ = PosInf"
| "jmax _ PosInf = PosInf"
| "jmax NegInf b = b"
| "jmax a NegInf = a"

text \<open>\<open>Math.min(...xs)\<close> and \<open>Math.max(...xs)\<close>; without arguments they are the
  infinities.\<close>

definition Math_min :: "jsnum list \<Rightarrow> jsnum" where
  "Math_min xs = foldl jmin PosInf xs"

definition Math_max :: "jsnum list \<Rightarrow> jsnum" where
  "Math_max xs = foldl jmax NegInf xs"

text \<open>
  \<open>Number(x.toFixed(2))\<close>: the nearest multiple of \<open>0.01\<close>, a tie going away from
  zero; numbers of magnitude \<open>10\<^sup>2\<^sup>1\<close> and more and the special values are unchanged.
\<close>

fun toFixed2 :: "jsnum \<Rightarrow> jsnum" where
  "toFixed2 (Num a) =
     Num (if 10 ^ 21 \<le> \<bar>a\<bar> then a
          else sgn a * real_of_int \<lfloor>\<bar>a\<bar> * 100 + 1 / 2\<rfloor> / 100)"
| "toFixed2 v = v"

text \<open>\<open>String(n)\<close> for a natural number \<open>n\<close>.\<close>

definition digitChar :: "nat \<Rightarrow> char" where
  "digitChar d = ''0123456789'' ! d"

fun showNat :: "nat \<Rightarrow> string" where
  "showNat n =
     (if n < 10 then [digitChar n]
      else showNat (n div 10) @ [digitChar (n mod 10)])"

declare showNat.simps [simp del]

text \<open>\<open>s.padStart(2, "0")\<close>.\<close>

definition padStart2 :: "string \<Rightarrow> string" where
  "padStart2 s = replicate (2 - length s) (CHR ''0'') @ s"

text \<open>
  What the property \<open>purchase_price\<close> of a received point can hold: a number, a string,
  a boolean, \<open>null\<close>, or nothing (\<open>undefined\<close>). The interface declares a number, but
  the points come from \<open>JSON.parse\<close> unchecked. Arrays and objects as prices are left
  out.
\<close>

datatype jsvalue = JSNumber jsnum | JSString string | JSBool bool | JSNull | JSUndefined

text \<open>Truthiness of a value, and \<open>a || b\<close> on values.\<close>

fun truthyValue :: "jsvalue \<Rightarrow> bool" where
  "truthyValue (JSNumber a) = truthy a"
| "truthyValue (JSString s) = (s \<noteq> [])"
| "truthyValue (JSBool b) = b"
| "truthyValue JSNull = False"
| "truthyValue JSUndefined = False"

definition valueOrElse :: "jsvalue \<Rightarrow> jsvalue \<Rightarrow> jsvalue" where
  "valueOrElse a b = (if truthyValue a then a else b)"

text \<open>
  The interface \<open>PriceData\<close>. The four optional fields are \<open>None\<close> when the property
  is absent.
\<close>

record PriceData =
  purchase_price :: jsvalue
  Date :: string
  formattedDate :: "string option"
  formattedTime :: "string option"
  formattedDateTime :: "string option"
  timestamp :: "jsnum option"

text \<open>The type \<open>TimePeriod\<close>: \<open>"1W" | "1M" | "3M" | "6M" | "1Y" | "ALL"\<close>.\<close>

datatype TimePeriod = Period_1W | Period_1M | Period_3M | Period_6M | Period_1Y | Period_ALL

section \<open>Down-sampling: \<open>optimizeDataForDisplay\<close>\<close>

text \<open>
  \<open>Math.ceil(data.length / dataPointLimit)\<close> for a positive limit. Lengths and the
  limit are natural numbers; the quotient of two array lengths is exact enough in
  binary floating point for the ceiling to be the mathematical one.
\<close>

definition samplingRate :: "nat \<Rightarrow> nat \<Rightarrow> nat" where
  "samplingRate n limit = nat \<lceil>real n / real limit\<rceil>"

text \<open>
  The loop \<open>for (let i = samplingRate; i < data.length - samplingRate; i += samplingRate)
  optimizedData.push(data[i])\<close>, with the array built so far as accumulator. On natural
  numbers \<open>i < n - rate\<close> is false when \<open>rate \<ge> n\<close>, as the comparison with a negative
  right-hand side is in the source. The loop is entered with a rate of at least 1 only.
\<close>

function sampleLoop :: "'a list \<Rightarrow> nat \<Rightarrow> nat \<Rightarrow> 'a list \<Rightarrow> 'a list" where
  "sampleLoop data rate i optimizedData =
     (if 0 < rate \<and> i < length data - rate
      then sampleLoop data rate (i + rate) (optimizedData @ [data ! i])
      else optimizedData)"
  by pat_completeness auto
termination
  by (relation "measure (\<lambda>(data, rate, i, acc). length data - i)") auto

text \<open>
  \<open>optimizeDataForDisplay\<close>, with the limit of the enclosing component as first
  argument. A limit of \<open>0\<close> makes the rate \<open>Infinity\<close>, and then the loop body never
  runs.
\<close>

definition optimizeDataForDisplay :: "nat \<Rightarrow> 'a list \<Rightarrow> 'a list" where
  "optimizeDataForDisplay dataPointLimit data =
     (if data = [] then []
      else if length data \<le> dataPointLimit then data
      else
        (let first = [data ! 0];
             middle = (if dataPointLimit = 0 then first
                       else sampleLoop data (samplingRate (length data) dataPointLimit)
                              (samplingRate (length data) dataPointLimit) first)
         in middle @ [data ! (length data - 1)]))"

section \<open>The host environment\<close>

text \<open>The errors that the host throws in the code modelled here.\<close>

datatype exn = TypeError | RangeError

text \<open>
  What the page takes from the JavaScript host: the clock, the locale, the date
  parser and the random number generator. Every property below holds for all values
  of these.
  \<^item> \<open>Date_parse s\<close> is the time value of \<open>new Date(s)\<close>, \<open>None\<close> when the string
    is not a date (the object is then an \<open>Invalid Date\<close>; the constructor does not
    throw);
  \<^item> \<open>localeDate t\<close> and \<open>localeTime t\<close> are \<open>toLocaleDateString()\<close> and
    \<open>toLocaleTimeString([], {hour: "2-digit", minute: "2-digit"})\<close> of a valid date;
  \<^item> \<open>cutoffDays k\<close>, \<open>cutoffMonths k\<close> and \<open>cutoffYears k\<close> are the time value of
    \<open>cutoffDate\<close> after \<open>setDate(now.getDate() - k)\<close>, \<open>setMonth(now.getMonth() - k)\<close>
    and \<open>setFullYear(now.getFullYear() - k)\<close>;
  \<^item> \<open>mockDay i\<close> is the time value of today moved back by \<open>i\<close> days, \<open>isoDay t\<close> is
    \<open>toISOString().split("T")[0]\<close>;
  \<^item> \<open>Math_random k\<close> is the result of the \<open>k\<close>-th call of \<open>Math.random()\<close> in one run
    of the generator;
  \<^item> \<open>fl x\<close> is the double nearest to the real number \<open>x\<close>, an infinity when \<open>x\<close> is
    beyond the range of the doubles;
  \<^item> \<open>StringToNumber s\<close> is the number that the string \<open>s\<close> converts to (\<open>NaN\<close> when it
    is not the text of a number), \<open>NumberToString a\<close> the string that the number \<open>a\<close>
    converts to;
  \<^item> \<open>maxArguments\<close> is the greatest number of arguments that a call \<open>f(...xs)\<close> can
    pass; a longer array makes the call throw a \<open>RangeError\<close>;
  \<^item> \<open>errorMessage e\<close> is the \<open>message\<close> of the error \<open>e\<close>: of the \<open>TypeError\<close> thrown
    on reading a property of \<open>null\<close>, and of the \<open>RangeError\<close> of a call with too many
    arguments.
\<close>

record runtime =
  Date_parse :: "string \<Rightarrow> real option"
  localeDate :: "real \<Rightarrow> string"
  localeTime :: "real \<Rightarrow> string"
  cutoffDays :: "nat \<Rightarrow> real"
  cutoffMonths :: "nat \<Rightarrow> real"
  cutoffYears :: "nat \<Rightarrow> real"
  mockDay :: "nat \<Rightarrow> real"
  isoDay :: "real \<Rightarrow> string"
  Math_random :: "nat \<Rightarrow> real"
  fl :: "real \<Rightarrow> jsnum"
  StringToNumber :: "string \<Rightarrow> jsnum"
  NumberToString :: "jsnum \<Rightarrow> string"
  maxArguments :: nat
  errorMessage :: "exn \<Rightarrow> string"

text \<open>A \<open>Date\<close> object is its time value: a number, or \<open>NaN\<close> for an invalid date.\<close>

definition newDate :: "runtime \<Rightarrow> string \<Rightarrow> jsnum" where
  "newDate rt s = (case Date_parse rt s of Some t \<Rightarrow> Num t | None \<Rightarrow> NaN)"

definition getTime :: "jsnum \<Rightarrow> jsnum" where
  "getTime d = d"

definition toLocaleDateString :: "runtime \<Rightarrow> jsnum \<Rightarrow> string" where
  "toLocaleDateString rt d = (case d of Num t \<Rightarrow> localeDate rt t | _ \<Rightarrow> ''Invalid Date'')"

definition toLocaleTimeString :: "runtime \<Rightarrow> jsnum \<Rightarrow> string" where
  "toLocaleTimeString rt d = (case d of Num t \<Rightarrow> localeTime rt t | _ \<Rightarrow> ''Invalid Date'')"

text \<open>The conversions of a value to a number and to a string.\<close>

fun ToNumber :: "runtime \<Rightarrow> jsvalue \<Rightarrow> jsnum" where
  "ToNumber rt (JSNumber a) = a"
| "ToNumber rt (JSString s) = StringToNumber rt s"
| "ToNumber rt (JSBool b) = Num (if b then 1 else 0)"
| "ToNumber rt JSNull = Num 0"
| "ToNumber rt JSUndefined = NaN"

fun ToString :: "runtime \<Rightarrow> jsvalue \<Rightarrow> string" where
  "ToString rt (JSNumber a) = NumberToString rt a"
| "ToString rt (JSString s) = s"
| "ToString rt (JSBool b) = (if b then ''true'' else ''false'')"
| "ToString rt JSNull = ''null''"
| "ToString rt JSUndefined = ''undefined''"

text \<open>
  Arithmetic on doubles: the exact result, rounded by the host. The operands are
  doubles, or the special values.
\<close>

definition rounded :: "runtime \<Rightarrow> jsnum \<Rightarrow> jsnum" where
  "rounded rt v = (case v of Num x \<Rightarrow> fl rt x | _ \<Rightarrow> v)"

definition plusDouble :: "runtime \<Rightarrow> jsnum \<Rightarrow> jsnum \<Rightarrow> jsnum" where
  "plusDouble rt a b = rounded rt (jplus a b)"

definition minusDouble :: "runtime \<Rightarrow> jsnum \<Rightarrow> jsnum \<Rightarrow> jsnum" where
  "minusDouble rt a b = rounded rt (jminus a b)"

definition timesDouble :: "runtime \<Rightarrow> jsnum \<Rightarrow> jsnum \<Rightarrow> jsnum" where
  "timesDouble rt a b = rounded rt (jtimes a b)"

definition divDouble :: "runtime \<Rightarrow> jsnum \<Rightarrow> jsnum \<Rightarrow> jsnum" where
  "divDouble rt a b = rounded rt (jdiv a b)"

text \<open>
  \<open>a + b\<close> on values: the concatenation of the two as strings when one of them is a
  string, their sum as numbers otherwise.
\<close>

fun isString :: "jsvalue \<Rightarrow> bool" where
  "isString (JSString s) = True"
| "isString _ = False"

definition plusValue :: "runtime \<Rightarrow> jsvalue \<Rightarrow> jsvalue \<Rightarrow> jsvalue" where
  "plusValue rt a b =
     (if isString a \<or> isString b then JSString (ToString rt a @ ToString rt b)
      else JSNumber (plusDouble rt (ToNumber rt a) (ToNumber rt b)))"

section \<open>Normalisation of the points received\<close>

text \<open>
  An element of the array \<open>data.data\<close> is an object of the interface (\<open>Some\<close>) or
  \<open>null\<close> (\<open>None\<close>). The body of the \<open>try\<close> block in the \<open>map\<close> callback of
  \<open>fetchItemStats\<close>: reading \<open>item.Date\<close> of \<open>null\<close> throws a \<open>TypeError\<close>; nothing
  else in the block throws.
\<close>

definition formatItem :: "runtime \<Rightarrow> PriceData option \<Rightarrow> exn + PriceData" where
  "formatItem rt item =
     (case item of
        None \<Rightarrow> Inl TypeError
      | Some it \<Rightarrow>
          (let date = newDate rt (Date it)
           in Inr (it\<lparr>formattedDate := Some (toLocaleDateString rt date),
                      formattedTime := Some (toLocaleTimeString rt date),
                      formattedDateTime :=
                        Some (toLocaleDateString rt date @ '' '' @ toLocaleTimeString rt date),
                      timestamp := Some (getTime date)\<rparr>)))"

text \<open>
  The \<open>catch\<close> block of the callback. Its first statement,
  \<open>console.error("Invalid date format:", item.Date)\<close>, reads \<open>item.Date\<close> again: for
  \<open>null\<close> that throws a second \<open>TypeError\<close>, which leaves the callback. For an object
  the block returns \<open>{...item, formattedDate: "Invalid date", ...}\<close>.
\<close>

definition invalidDateItem :: "PriceData option \<Rightarrow> exn + PriceData" where
  "invalidDateItem item =
     (case item of
        None \<Rightarrow> Inl TypeError
      | Some it \<Rightarrow>
          Inr (it\<lparr>formattedDate := Some ''Invalid date'',
                   formattedTime := Some [],
                   formattedDateTime := Some ''Invalid date'',
                   timestamp := Some (Num 0)\<rparr>))"

definition normalizeItem :: "runtime \<Rightarrow> PriceData option \<Rightarrow> exn + PriceData" where
  "normalizeItem rt item =
     (case formatItem rt item of
        Inr formatted \<Rightarrow> Inr formatted
      | Inl e \<Rightarrow> invalidDateItem item)"

text \<open>\<open>xs.map(f)\<close> for a callback that may throw: the first throw ends the call.\<close>

fun mapThrowing :: "('a \<Rightarrow> exn + 'b) \<Rightarrow> 'a list \<Rightarrow> exn + 'b list" where
  "mapThrowing f [] = Inr []"
| "mapThrowing f (a # as) =
     (case f a of
        Inl e \<Rightarrow> Inl e
      | Inr b \<Rightarrow> (case mapThrowing f as of Inl e \<Rightarrow> Inl e | Inr bs \<Rightarrow> Inr (b # bs)))"

text \<open>The comparator \<open>(a.timestamp || 0) - (b.timestamp || 0)\<close>; it does not throw.\<close>

definition compareTimestamps :: "PriceData \<Rightarrow> PriceData \<Rightarrow> jsnum" where
  "compareTimestamps a b =
     jminus (optOrElse (timestamp a) (Num 0)) (optOrElse (timestamp b) (Num 0))"

text \<open>
  \<open>Array.prototype.sort\<close> is stable; it is modelled as insertion sort, in which an
  element moves behind another only when the comparator's result is positive.
\<close>

fun insertSorted :: "('a \<Rightarrow> 'a \<Rightarrow> jsnum) \<Rightarrow> 'a \<Rightarrow> 'a list \<Rightarrow> 'a list" where
  "insertSorted cmp a [] = [a]"
| "insertSorted cmp a (b # bs) =
     (if jpositive (cmp a b) then b # insertSorted cmp a bs else a # b # bs)"

fun sortBy :: "('a \<Rightarrow> 'a \<Rightarrow> jsnum) \<Rightarrow> 'a list \<Rightarrow> 'a list" where
  "sortBy cmp [] = []"
| "sortBy cmp (a # as) = insertSorted cmp a (sortBy cmp as)"

text \<open>
  \<open>processedData\<close>: map, filter on the price, sort. The filter
  \<open>!isNaN(item.purchase_price)\<close> converts the price to a number first, so it keeps a
  string that is the text of a number, as a string.
\<close>

definition processData :: "runtime \<Rightarrow> PriceData option list \<Rightarrow> exn + PriceData list" where
  "processData rt items =
     (case mapThrowing (normalizeItem rt) items of
        Inl e \<Rightarrow> Inl e
      | Inr formatted \<Rightarrow>
          Inr (sortBy compareTimestamps
                 (filter (\<lambda>item. \<not> isNaN (ToNumber rt (purchase_price item))) formatted)))"

section \<open>The state of the statistics page\<close>

record Change =
  gold :: jsnum
  percent :: jsnum

record PriceStats =
  price :: jsnum
  per_day :: Change
  per_week :: Change
  per_month :: Change
  per_year :: Change

record ApiResponse =
  data :: "PriceData list"
  stats :: PriceStats

datatype ZoomDomain = ZoomDomain (zoom_x: "int \<times> int") (zoom_y: "int \<times> int")

record Toast =
  title :: string
  description :: string
  variant :: "string option"

text \<open>
  The \<open>useState\<close> fields of \<open>ItemStatistics\<close> that the data pipeline reads or writes,
  and the toasts shown so far. \<open>dataPointLimit\<close> starts at \<open>1000000\<close> and has no
  setter call in the component.
\<close>

record view_state =
  isLoading :: bool
  isRefreshing :: bool
  error :: "string option"
  priceData :: "PriceData list"
  filteredData :: "PriceData list"
  displayData :: "PriceData list"
  pageStats :: "PriceStats option"
  selectedPeriod :: TimePeriod
  zoomDomain :: "ZoomDomain option"
  dataPointLimit :: nat
  retryCount :: nat
  showNoDataMessage :: bool
  toasts :: "Toast list"

definition initialState :: view_state where
  "initialState =
     \<lparr>isLoading = True, isRefreshing = False, error = None, priceData = [],
      filteredData = [], displayData = [], pageStats = None, selectedPeriod = Period_1M,
      zoomDomain = None, dataPointLimit = 1000000, retryCount = 0,
      showNoDataMessage = False, toasts = []\<rparr>"

section \<open>Windowing: \<open>filterDataByPeriod\<close>\<close>

text \<open>
  The \<open>switch\<close> on the period: the time value of \<open>cutoffDate\<close>, or \<open>None\<close> for
  \<open>"ALL"\<close>, whose case returns from the function.
\<close>

fun cutoffDate :: "runtime \<Rightarrow> TimePeriod \<Rightarrow> real option" where
  "cutoffDate rt Period_1W = Some (cutoffDays rt 7)"
| "cutoffDate rt Period_1M = Some (cutoffMonths rt 1)"
| "cutoffDate rt Period_3M = Some (cutoffMonths rt 3)"
| "cutoffDate rt Period_6M = Some (cutoffMonths rt 6)"
| "cutoffDate rt Period_1Y = Some (cutoffYears rt 1)"
| "cutoffDate rt Period_ALL = None"

text \<open>
  The filter callback
  \<open>(item.timestamp || new Date(item.Date).getTime()) >= cutoffDate.getTime()\<close>.
  Nothing in it throws, so its \<open>catch\<close> and the outer one are never entered.
\<close>

definition inPeriod :: "runtime \<Rightarrow> real \<Rightarrow> PriceData \<Rightarrow> bool" where
  "inPeriod rt cutoff item =
     jge (optOrElse (timestamp item) (getTime (newDate rt (Date item)))) (Num cutoff)"

definition filterDataByPeriod ::
  "runtime \<Rightarrow> PriceData list \<Rightarrow> TimePeriod \<Rightarrow> view_state \<Rightarrow> view_state" where
  "filterDataByPeriod rt dat period st =
     (if dat = [] then st\<lparr>filteredData := [], displayData := []\<rparr>
      else
        (case cutoffDate rt period of
           None \<Rightarrow> st\<lparr>filteredData := dat, displayData := dat\<rparr>
         | Some cutoff \<Rightarrow>
             (let filtered = filter (inPeriod rt cutoff) dat;
                  finalData = (if 0 < length filtered then filtered else dat)
              in st\<lparr>filteredData := finalData,
                     displayData := optimizeDataForDisplay (dataPointLimit st) finalData\<rparr>)))"

section \<open>The synthetic series: \<open>generateMockData\<close>\<close>

text \<open>
  The sum of the character codes of the name. A \<open>string\<close> is a list of bytes, which
  are the UTF-16 code units of the source for a name in ASCII.
\<close>

definition nameSum :: "string \<Rightarrow> nat" where
  "nameSum name = foldl (\<lambda>sum c. sum + of_char c) 0 name"

definition basePrice :: "string \<Rightarrow> nat" where
  "basePrice name = 200 + nameSum name mod 300"

text \<open>\<open>String(Math.floor(Math.random() * m)).padStart(2, "0")\<close> for the \<open>k\<close>-th call.\<close>

definition randomField :: "runtime \<Rightarrow> nat \<Rightarrow> nat \<Rightarrow> string" where
  "randomField rt k m = padStart2 (showNat (nat \<lfloor>Math_random rt k * real m\<rfloor>))"

text \<open>
  The point pushed for the loop variable \<open>i\<close>. The loop counts \<open>i\<close> down from \<open>365\<close>,
  and each round calls \<open>Math.random()\<close> seven times, in the order of the properties.
\<close>

definition mockPrice :: "nat \<Rightarrow> nat \<Rightarrow> jsnum" where
  "mockPrice base i =
     (let dayFactor = sin (real i / 30) * 20;
          randomFactor = sin (real i) * 10 + cos (real i * 2) * 5;
          trendFactor = (real i / 365) * 50
      in toFixed2 (Num (real base + dayFactor + randomFactor + trendFactor)))"

definition mockPoint :: "runtime \<Rightarrow> nat \<Rightarrow> nat \<Rightarrow> PriceData" where
  "mockPoint rt base i =
     (let date = mockDay rt i;
          k = 7 * (365 - i)
      in \<lparr>purchase_price = JSNumber (mockPrice base i),
          Date = isoDay rt date @ '' '' @ randomField rt k 24 @ '':''
                 @ randomField rt (k + 1) 60 @ '':'' @ randomField rt (k + 2) 60,
          formattedDate = Some (localeDate rt date),
          formattedTime = Some (randomField rt (k + 3) 24 @ '':'' @ randomField rt (k + 4) 60),
          formattedDateTime =
            Some (localeDate rt date @ '' '' @ randomField rt (k + 5) 24 @ '':''
                  @ randomField rt (k + 6) 60),
          timestamp = Some (Num date)\<rparr>)"

text \<open>
  \<open>for (let i = 365; i >= 0; i--) data.push(...)\<close>: the first argument is the number of
  rounds still to run, \<open>i + 1\<close>.
\<close>

fun mockLoop :: "runtime \<Rightarrow> nat \<Rightarrow> nat \<Rightarrow> PriceData list \<Rightarrow> PriceData list" where
  "mockLoop rt base 0 acc = acc"
| "mockLoop rt base (Suc i) acc = mockLoop rt base i (acc @ [mockPoint rt base i])"

text \<open>\<open>data[data.length - k]?.purchase_price || currentPrice\<close>.\<close>

definition priceBack :: "PriceData list \<Rightarrow> nat \<Rightarrow> jsvalue \<Rightarrow> jsvalue" where
  "priceBack dat k currentPrice =
     (if 0 < k \<and> k \<le> length dat
      then valueOrElse (purchase_price (dat ! (length dat - k))) currentPrice
      else currentPrice)"

definition changeSince :: "jsnum \<Rightarrow> jsnum \<Rightarrow> Change" where
  "changeSince currentPrice earlier =
     (let change = jminus currentPrice earlier
      in \<lparr>gold = toFixed2 change,
          percent = toFixed2 (jtimes (jdiv change earlier) (Num 100))\<rparr>)"

text \<open>
  The statistics of the generated series. The series holds 366 points when they are
  computed, so \<open>data[data.length - 1]\<close> is a point. The prices read are the numbers
  that the loop has stored; the subtractions and divisions convert their operands to
  numbers, which leaves a number as it is, and so does the \<open>ToNumber\<close> written at
  \<open>price\<close>, a field of numbers.
\<close>

definition mockStats :: "runtime \<Rightarrow> PriceData list \<Rightarrow> PriceStats" where
  "mockStats rt dat =
     (let currentPrice = purchase_price (dat ! (length dat - 1));
          yesterdayPrice = priceBack dat 2 currentPrice;
          weekAgoPrice = priceBack dat 7 currentPrice;
          monthAgoPrice = priceBack dat 30 currentPrice;
          yearAgoPrice = priceBack dat (length dat) currentPrice
      in \<lparr>price = ToNumber rt currentPrice,
          per_day = changeSince (ToNumber rt currentPrice) (ToNumber rt yesterdayPrice),
          per_week = changeSince (ToNumber rt currentPrice) (ToNumber rt weekAgoPrice),
          per_month = changeSince (ToNumber rt currentPrice) (ToNumber rt monthAgoPrice),
          per_year = changeSince (ToNumber rt currentPrice) (ToNumber rt yearAgoPrice)\<rparr>)"

definition generateMockData :: "runtime \<Rightarrow> string \<Rightarrow> ApiResponse" where
  "generateMockData rt name =
     (let dat = mockLoop rt (basePrice name) 366 []
      in \<lparr>data = dat, stats = mockStats rt dat\<rparr>)"

section \<open>Fetching: \<open>fetchItemStats\<close>\<close>

text \<open>
  A thrown value is represented by its \<open>message\<close>, \<open>None\<close> when it has none.
  The outcome of \<open>fetch\<close>: the promise rejects (no connection, or the abort after 15
  seconds), or it resolves to a response with a status and a body; the body is \<open>None\<close>
  when reading it with \<open>response.text()\<close> fails.
\<close>

type_synonym thrown = "string option"

datatype fetch_outcome = Rejected thrown | Responded nat "string option"

text \<open>
  The value of \<open>JSON.parse\<close> as far as the function looks at it: a falsy value, or a
  value whose property \<open>data\<close> is absent or falsy, is something other than an array,
  or is an array; and its property \<open>stats\<close>, in which every part may be absent.
\<close>

datatype data_prop = DataAbsent | DataNotArray | DataArray "PriceData option list"

record ChangeJson =
  gold_json :: "jsnum option"
  percent_json :: "jsnum option"

record StatsJson =
  price_json :: "jsnum option"
  per_day_json :: "ChangeJson option"
  per_week_json :: "ChangeJson option"
  per_month_json :: "ChangeJson option"
  per_year_json :: "ChangeJson option"

datatype parsed = ParsedFalsy | ParsedValue data_prop "StatsJson option"

text \<open>\<open>s.trim()\<close>, for the white space of ASCII.\<close>

definition isWhiteSpace :: "char \<Rightarrow> bool" where
  "isWhiteSpace c = (of_char c \<in> {9, 10, 11, 12, 13, 32 :: nat})"

definition trim :: "string \<Rightarrow> string" where
  "trim s = rev (dropWhile isWhiteSpace (rev (dropWhile isWhiteSpace s)))"

text \<open>
  The inner \<open>try\<close> block: read the body as text, refuse an empty or blank text, parse
  it. Every failure is rethrown as \<open>"Failed to parse API response"\<close>.
\<close>

definition readJson :: "(string \<Rightarrow> parsed option) \<Rightarrow> string option \<Rightarrow> thrown + parsed" where
  "readJson JSON_parse body =
     (case body of
        None \<Rightarrow> Inl (Some ''Failed to parse API response'')
      | Some responseText \<Rightarrow>
          if responseText = [] \<or> trim responseText = []
          then Inl (Some ''Failed to parse API response'')
          else (case JSON_parse responseText of
                  None \<Rightarrow> Inl (Some ''Failed to parse API response'')
                | Some d \<Rightarrow> Inr d))"

definition safeChange :: "ChangeJson option \<Rightarrow> Change" where
  "safeChange c =
     \<lparr>gold = optOrElse (Option.bind c gold_json) (Num 0),
      percent = optOrElse (Option.bind c percent_json) (Num 0)\<rparr>"

definition safeStats :: "StatsJson option \<Rightarrow> PriceStats" where
  "safeStats s =
     \<lparr>price = optOrElse (Option.bind s price_json) (Num 0),
      per_day = safeChange (Option.bind s per_day_json),
      per_week = safeChange (Option.bind s per_week_json),
      per_month = safeChange (Option.bind s per_month_json),
      per_year = safeChange (Option.bind s per_year_json)\<rparr>"

definition addToast :: "bool \<Rightarrow> Toast \<Rightarrow> view_state \<Rightarrow> view_state" where
  "addToast showToast t st = (if showToast then st\<lparr>toasts := toasts st @ [t]\<rparr> else st)"

text \<open>
  The three statements \<open>setPriceData(mockData.data); filterDataByPeriod(mockData.data,
  selectedPeriod); setStats(mockData.stats)\<close>, which the function has in three places.
\<close>

definition useMockData :: "runtime \<Rightarrow> string \<Rightarrow> view_state \<Rightarrow> view_state" where
  "useMockData rt itemName st =
     (let mockData = generateMockData rt itemName;
          st1 = st\<lparr>priceData := data mockData\<rparr>;
          st2 = filterDataByPeriod rt (data mockData) (selectedPeriod st1) st1
      in st2\<lparr>pageStats := Some (stats mockData)\<rparr>)"

text \<open>
  The \<open>try\<close> block after the first four setters: \<open>Inl\<close> is a throw, \<open>Inr\<close> the state
  when the block ends or returns. \<open>refreshing\<close> is the value of \<open>isRefreshing\<close> that the
  callback has captured. A \<open>null\<close> among the points makes the \<open>map\<close> callback throw,
  which ends the block like the other throws.
\<close>

definition fetchBody ::
  "(string \<Rightarrow> parsed option) \<Rightarrow> runtime \<Rightarrow> string \<Rightarrow> bool \<Rightarrow> bool \<Rightarrow> fetch_outcome
     \<Rightarrow> view_state \<Rightarrow> thrown + view_state" where
  "fetchBody JSON_parse rt itemName refreshing showToast outcome st =
     (case outcome of
        Rejected err \<Rightarrow> Inl err
      | Responded status body \<Rightarrow>
          if \<not> (200 \<le> status \<and> status \<le> 299) then
            (let errorText = (case body of None \<Rightarrow> ''Unknown error'' | Some t \<Rightarrow> t)
             in Inl (Some (''API Error: '' @ showNat status
                           @ (if errorText \<noteq> [] then '' - '' @ errorText else []))))
          else
            (case readJson JSON_parse body of
               Inl err \<Rightarrow> Inl err
             | Inr ParsedFalsy \<Rightarrow> Inl (Some ''Invalid data structure received from API'')
             | Inr (ParsedValue DataAbsent s) \<Rightarrow>
                 Inl (Some ''Invalid data structure received from API'')
             | Inr (ParsedValue DataNotArray s) \<Rightarrow>
                 Inl (Some ''Invalid data structure received from API'')
             | Inr (ParsedValue (DataArray items) s) \<Rightarrow>
                 if length items = 0 then
                   (let st1 = st\<lparr>showNoDataMessage := True\<rparr>;
                        st2 = useMockData rt itemName st1;
                        st3 = addToast showToast
                                \<lparr>title = ''No price data available'',
                                 description = ''Using sample data for preview purposes'',
                                 variant = Some ''warning''\<rparr> st2
                    in Inr (st3\<lparr>isLoading := False, isRefreshing := False\<rparr>))
                 else
                   (case processData rt items of
                      Inl e \<Rightarrow> Inl (Some (errorMessage rt e))
                    | Inr processedData \<Rightarrow>
                        if length processedData = 0 then
                          (let st1 = st\<lparr>showNoDataMessage := True\<rparr>;
                               st2 = useMockData rt itemName st1
                           in Inr (addToast showToast
                                     \<lparr>title = ''No valid price data available'',
                                      description = ''Using sample data for preview purposes'',
                                      variant = Some ''warning''\<rparr> st2))
                        else
                          (let st1 = st\<lparr>priceData := processedData\<rparr>;
                               st2 = filterDataByPeriod rt processedData (selectedPeriod st1) st1;
                               st3 = st2\<lparr>pageStats := Some (safeStats s)\<rparr>
                           in Inr (addToast (refreshing \<and> showToast)
                                     \<lparr>title = ''Data refreshed'',
                                      description = ''The latest price data has been loaded'',
                                      variant = None\<rparr> st3)))))"

text \<open>The \<open>catch\<close> block.\<close>

definition fetchFailed :: "runtime \<Rightarrow> string \<Rightarrow> bool \<Rightarrow> thrown \<Rightarrow> view_state \<Rightarrow> view_state" where
  "fetchFailed rt itemName showToast err st =
     (let errorMessage = (case err of
                            Some m \<Rightarrow> if m \<noteq> [] then m else ''Failed to load item statistics''
                          | None \<Rightarrow> ''Failed to load item statistics'');
          st1 = st\<lparr>error := Some errorMessage\<rparr>;
          st2 = addToast showToast
                  \<lparr>title = ''Error'', description = errorMessage,
                   variant = Some ''destructive''\<rparr> st1
      in useMockData rt itemName st2)"

text \<open>The whole function: the four setters, the \<open>try\<close>, \<open>catch\<close> and \<open>finally\<close> blocks.\<close>

definition fetchItemStats ::
  "(string \<Rightarrow> parsed option) \<Rightarrow> runtime \<Rightarrow> string \<Rightarrow> bool \<Rightarrow> bool \<Rightarrow> fetch_outcome
     \<Rightarrow> view_state \<Rightarrow> view_state" where
  "fetchItemStats JSON_parse rt itemName refreshing showToast outcome st =
     (let st0 = st\<lparr>isLoading := True, error := None, showNoDataMessage := False,
                    retryCount := 0\<rparr>;
          st1 = (case fetchBody JSON_parse rt itemName refreshing showToast outcome st0 of
                   Inr ended \<Rightarrow> ended
                 | Inl err \<Rightarrow> fetchFailed rt itemName showToast err st0)
      in st1\<lparr>isLoading := False, isRefreshing := False\<rparr>)"

section \<open>Aggregates and the charted points\<close>

text \<open>
  The \<open>useMemo\<close> that gives \<open>minPrice\<close>, \<open>maxPrice\<close> and \<open>avgPrice\<close>. The calls
  \<open>Math.min(...prices)\<close> and \<open>Math.max(...prices)\<close> convert every price to a number,
  and throw when the series has more points than a call can pass arguments. The
  \<open>reduce\<close> adds with \<open>+\<close>, which concatenates from the first price on that is a
  string; the division converts the result to a number. \<open>0.98\<close> and \<open>1.02\<close> are the
  doubles nearest to them, and a length is a double as it is.
\<close>

record Aggregates =
  minPrice :: jsnum
  maxPrice :: jsnum
  avgPrice :: jsnum

definition priceAggregates :: "runtime \<Rightarrow> PriceData list \<Rightarrow> exn + Aggregates" where
  "priceAggregates rt fd =
     (if length fd = 0 then Inr \<lparr>minPrice = Num 0, maxPrice = Num 0, avgPrice = Num 0\<rparr>
      else if maxArguments rt < length fd then Inl RangeError
      else
        (let mn = timesDouble rt (Math_min (map (ToNumber rt) (map purchase_price fd)))
                    (fl rt 0.98);
             mx = timesDouble rt (Math_max (map (ToNumber rt) (map purchase_price fd)))
                    (fl rt 1.02);
             avg = divDouble rt
                     (ToNumber rt
                        (foldl (\<lambda>sum item. plusValue rt sum (purchase_price item))
                           (JSNumber (Num 0)) fd))
                     (Num (real (length fd)))
         in Inr \<lparr>minPrice = mn, maxPrice = mx, avgPrice = avg\<rparr>))"

text \<open>
  The volatility figure
  \<open>avgPrice ? (((maxPrice - minPrice) / avgPrice) * 100).toFixed(2) : "0.00"\<close>, as the
  number whose decimal notation is shown: \<open>toFixed\<close> rounds the exact value of the
  double it is given. \<open>100\<close> is a double as it is.
\<close>

definition volatility :: "runtime \<Rightarrow> Aggregates \<Rightarrow> jsnum" where
  "volatility rt agg =
     (if truthy (avgPrice agg)
      then toFixed2 (timesDouble rt
                       (divDouble rt (minusDouble rt (maxPrice agg) (minPrice agg)) (avgPrice agg))
                       (Num 100))
      else Num 0)"

text \<open>\<open>xs.slice(from, to)\<close> for integers: a negative index counts from the end.\<close>

definition slice :: "'a list \<Rightarrow> int \<Rightarrow> int \<Rightarrow> 'a list" where
  "slice xs from to =
     (let len = int (length xs);
          k = (if from < 0 then max (len + from) 0 else min from len);
          final = (if to < 0 then max (len + to) 0 else min to len)
      in take (nat (final - k)) (drop (nat k) xs))"

text \<open>The \<open>useMemo\<close> that gives \<open>chartData\<close>, the points handed to the chart.\<close>

definition chartData :: "view_state \<Rightarrow> PriceData list" where
  "chartData st =
     (case zoomDomain st of
        None \<Rightarrow> displayData st
      | Some zoom \<Rightarrow>
          if length (filteredData st) = 0 then displayData st
          else
            (let startIdx = fst (zoom_x zoom);
                 endIdx = snd (zoom_x zoom)
             in if endIdx - startIdx < int (dataPointLimit st)
                then slice (filteredData st) startIdx (endIdx + 1)
                else optimizeDataForDisplay (dataPointLimit st)
                       (slice (filteredData st) startIdx (endIdx + 1))))"

section \<open>Zooming: \<open>handleZoomIn\<close> and \<open>handleZoomOut\<close>\<close>

text \<open>
  The indices are integers; \<open>0.25\<close> and \<open>0.75\<close> are binary fractions, so the products
  with an array length are exact in the source too.
\<close>

definition handleZoomIn :: "view_state \<Rightarrow> view_state" where
  "handleZoomIn st =
     (if length (filteredData st) = 0 then st
      else
        (case zoomDomain st of
           None \<Rightarrow>
             (let dataLength = int (length (filteredData st));
                  startIndex = \<lfloor>real_of_int dataLength * 0.25\<rfloor>;
                  endIndex = \<lfloor>real_of_int dataLength * 0.75\<rfloor>
              in st\<lparr>zoomDomain := Some (ZoomDomain (startIndex, endIndex) (0, 0))\<rparr>)
         | Some zoom \<Rightarrow>
             (let currentRange = snd (zoom_x zoom) - fst (zoom_x zoom);
                  newRange = max 10 \<lfloor>real_of_int currentRange * 0.75\<rfloor>;
                  midPoint = \<lfloor>real_of_int (fst (zoom_x zoom) + snd (zoom_x zoom)) / 2\<rfloor>;
                  halfNewRange = \<lfloor>real_of_int newRange / 2\<rfloor>
              in st\<lparr>zoomDomain :=
                      Some (ZoomDomain
                              (max 0 (midPoint - halfNewRange),
                               min (int (length (filteredData st)) - 1) (midPoint + halfNewRange))
                              (0, 0))\<rparr>)))"

definition handleZoomOut :: "view_state \<Rightarrow> view_state" where
  "handleZoomOut st =
     (if length (filteredData st) = 0 then st
      else
        (case zoomDomain st of
           None \<Rightarrow> st
         | Some zoom \<Rightarrow>
             (let currentRange = snd (zoom_x zoom) - fst (zoom_x zoom);
                  newRange = min (int (length (filteredData st))) \<lfloor>real_of_int currentRange * 2\<rfloor>;
                  midPoint = \<lfloor>real_of_int (fst (zoom_x zoom) + snd (zoom_x zoom)) / 2\<rfloor>;
                  halfNewRange = \<lfloor>real_of_int newRange / 2\<rfloor>;
                  newDomain =
                    ZoomDomain
                      (max 0 (midPoint - halfNewRange),
                       min (int (length (filteredData st)) - 1) (midPoint + halfNewRange))
                      (0, 0)
              in if fst (zoom_x newDomain) \<le> 5
                    \<and> int (length (filteredData st)) - 5 \<le> snd (zoom_x newDomain)
                 then st\<lparr>zoomDomain := None\<rparr>
                 else st\<lparr>zoomDomain := Some newDomain\<rparr>)))"

text \<open>\<open>handlePeriodChange\<close> and \<open>resetZoom\<close>.\<close>

definition handlePeriodChange :: "TimePeriod \<Rightarrow> view_state \<Rightarrow> view_state" where
  "handlePeriodChange period st = st\<lparr>selectedPeriod := period, zoomDomain := None\<rparr>"

definition resetZoom :: "view_state \<Rightarrow> view_state" where
  "resetZoom st = st\<lparr>zoomDomain := None\<rparr>"

section \<open>The proxy route \<open>/api/types\<close>\<close>

datatype json =
    JNull
  | JBool bool
  | JNumber real
  | JString string
  | JArray "json list"
  | JObject "(string \<times> json) list"

text \<open>
  The upstream response: its status and the result of \<open>response.text()\<close>, which may
  throw. \<open>response.ok\<close> is true for the statuses 200 to 299.
\<close>

datatype Response = Response (resp_status: nat) (resp_text: "thrown + string")

definition ok :: "Response \<Rightarrow> bool" where
  "ok response = (200 \<le> resp_status response \<and> resp_status response \<le> 299)"

text \<open>
  \<open>NextResponse.json(body, {status})\<close>; the status is 200 when none is given. The call
  builds a \<open>Response\<close> with a body, and that throws for a status outside 200 to 599
  (a \<open>RangeError\<close>) and for a status that allows no body, 204, 205 and 304 (a
  \<open>TypeError\<close>). \<open>statusError s\<close> is the message of the error thrown for the status
  \<open>s\<close>.
\<close>

datatype NextResponse = NextResponse (json_body: json) (status_code: nat)

definition refusedStatus :: "nat \<Rightarrow> bool" where
  "refusedStatus s = (s < 200 \<or> 599 < s \<or> s = 204 \<or> s = 205 \<or> s = 304)"

definition NextResponse_json :: "(nat \<Rightarrow> string) \<Rightarrow> json \<Rightarrow> nat \<Rightarrow> thrown + NextResponse" where
  "NextResponse_json statusError b s =
     (if refusedStatus s then Inl (Some (statusError s)) else Inr (NextResponse b s))"

text \<open>\<open>error instanceof Error ? error.message : "Unknown error"\<close>.\<close>

definition errorDetails :: "thrown \<Rightarrow> string" where
  "errorDetails err = (case err of Some m \<Rightarrow> m | None \<Rightarrow> ''Unknown error'')"

text \<open>
  The \<open>try\<close> block of \<open>GET\<close>: \<open>Inl\<close> is a throw, \<open>Inr\<close> the response returned. The
  first argument is \<open>JSON.parse\<close> (\<open>None\<close> where it throws), the third the outcome of
  \<open>fetch\<close>: a throw, or the upstream response.
\<close>

definition GET_try ::
  "(string \<Rightarrow> json option) \<Rightarrow> (nat \<Rightarrow> string) \<Rightarrow> thrown + Response \<Rightarrow> thrown + NextResponse" where
  "GET_try JSON_parse statusError upstream =
     (case upstream of
        Inl err \<Rightarrow> Inl err
      | Inr response \<Rightarrow>
          if \<not> ok response then
            NextResponse_json statusError
              (JObject [(''error'', JString (''API responded with status: ''
                                             @ showNat (resp_status response)))])
              (resp_status response)
          else
            (case resp_text response of
               Inl err \<Rightarrow> Inl err
             | Inr txt \<Rightarrow>
                 (case JSON_parse txt of
                    Some d \<Rightarrow> NextResponse_json statusError d 200
                  | None \<Rightarrow>
                      NextResponse_json statusError
                        (JObject [(''error'', JString ''Invalid JSON response from server''),
                                  (''responseText'', JString (take 100 txt))])
                        500)))"

text \<open>\<open>GET\<close>: the \<open>try\<close> block, and the \<open>catch\<close> block, whose status 500 is accepted.\<close>

definition GET :: "(string \<Rightarrow> json option) \<Rightarrow> (nat \<Rightarrow> string) \<Rightarrow> thrown + Response \<Rightarrow> NextResponse" where
  "GET JSON_parse statusError upstream =
     (case GET_try JSON_parse statusError upstream of
        Inr answer \<Rightarrow> answer
      | Inl err \<Rightarrow>
          NextResponse
            (JObject [(''error'', JString ''Failed to fetch types from external API''),
                      (''details'', JString (errorDetails err))]) 500)"

text \<open>
  The \<open>try\<close> block of \<open>POST\<close>. The third argument is the result of
  \<open>request.json()\<close>; the request to the upstream is made only when it has not thrown.
\<close>

definition POST_try ::
  "(string \<Rightarrow> json option) \<Rightarrow> (nat \<Rightarrow> string) \<Rightarrow> thrown + json \<Rightarrow> thrown + Response
     \<Rightarrow> thrown + NextResponse" where
  "POST_try JSON_parse statusError request upstream =
     (case request of
        Inl err \<Rightarrow> Inl err
      | Inr requestBody \<Rightarrow>
          (case upstream of
             Inl err \<Rightarrow> Inl err
           | Inr response \<Rightarrow>
               if \<not> ok response then
                 (case resp_text response of
                    Inl err \<Rightarrow> Inl err
                  | Inr errorText \<Rightarrow>
                      (let errorData = (case JSON_parse errorText of
                                          Some d \<Rightarrow> d
                                        | None \<Rightarrow> JObject [(''message'', JString errorText)])
                       in NextResponse_json statusError
                            (JObject [(''error'', JString (''API Error: ''
                                                           @ showNat (resp_status response))),
                                      (''details'', errorData)])
                            (resp_status response)))
               else
                 (case resp_text response of
                    Inl err \<Rightarrow> Inl err
                  | Inr txt \<Rightarrow>
                      (case JSON_parse txt of
                         Some d \<Rightarrow> NextResponse_json statusError d 200
                       | None \<Rightarrow>
                           NextResponse_json statusError
                             (JObject [(''error'', JString ''Invalid JSON response from server'')])
                             500))))"

definition POST ::
  "(string \<Rightarrow> json option) \<Rightarrow> (nat \<Rightarrow> string) \<Rightarrow> thrown + json \<Rightarrow> thrown + Response
     \<Rightarrow> NextResponse" where
  "POST JSON_parse statusError request upstream =
     (case POST_try JSON_parse statusError request upstream of
        Inr answer \<Rightarrow> answer
      | Inl err \<Rightarrow>
          NextResponse
            (JObject [(''error'', JString ''Failed to create type''),
                      (''details'', JString (errorDetails err))]) 500)"

section \<open>Predicates and sample values used in the statements\<close>

text \<open>The zoom range, when there is one, lies inside the filtered series.\<close>

definition zoomInBounds :: "view_state \<Rightarrow> bool" where
  "zoomInBounds st =
     (case zoomDomain st of
        None \<Rightarrow> True
      | Some zoom \<Rightarrow>
          0 \<le> fst (zoom_x zoom) \<and> fst (zoom_x zoom) \<le> snd (zoom_x zoom)
          \<and> snd (zoom_x zoom) \<le> int (length (filteredData st)) - 1)"

text \<open>A point as \<open>processData\<close> leaves it, with a price and a time value.\<close>

definition samplePoint :: "real \<Rightarrow> real \<Rightarrow> PriceData" where
  "samplePoint p t =
     \<lparr>purchase_price = JSNumber (Num p), Date = ''2024-01-01'', formattedDate = Some ''1/1/2024'',
      formattedTime = Some ''12:00 AM'', formattedDateTime = Some ''1/1/2024 12:00 AM'',
      timestamp = Some (Num t)\<rparr>"

text \<open>The points of a series that the filter of a period keeps.\<close>

definition pointsInWindow :: "runtime \<Rightarrow> TimePeriod \<Rightarrow> PriceData list \<Rightarrow> PriceData list" where
  "pointsInWindow rt period S =
     (case cutoffDate rt period of
        None \<Rightarrow> S
      | Some cutoff \<Rightarrow> filter (inPeriod rt cutoff) S)"

text \<open>The natural number that a text of decimal digits denotes.\<close>

definition digitsToNat :: "string \<Rightarrow> nat" where
  "digitsToNat s = foldl (\<lambda>n c. 10 * n + (of_char c - 48)) 0 s"

definition sampleStringToNumber :: "string \<Rightarrow> jsnum" where
  "sampleStringToNumber s =
     (if list_all (\<lambda>c. c \<in> set ''0123456789'') s then Num (real (digitsToNat s)) else NaN)"

definition sampleNumberToString :: "jsnum \<Rightarrow> string" where
  "sampleNumberToString a =
     (case a of
        Num x \<Rightarrow> (if 0 \<le> x \<and> x = real (nat \<lfloor>x\<rfloor>) then showNat (nat \<lfloor>x\<rfloor>) else ''NaN'')
      | PosInf \<Rightarrow> ''Infinity''
      | NegInf \<Rightarrow> ''-Infinity''
      | NaN \<Rightarrow> ''NaN'')"

definition sampleErrorMessage :: "exn \<Rightarrow> string" where
  "sampleErrorMessage e =
     (case e of
        TypeError \<Rightarrow> ''Cannot read properties of null''
      | RangeError \<Rightarrow> ''Maximum call stack size exceeded'')"

text \<open>
  A host in which the only date string is \<open>2024-01-01\<close>, the clock stands at the
  start of that day (UTC) and the random numbers are all \<open>1/2\<close>. It converts the
  natural numbers and their decimal texts into each other, as every host does; what
  it answers for other numbers and texts is of no account. It serves for examples in
  which no arithmetic is rounded: its \<open>fl\<close> leaves a number as it is.
\<close>

definition sample_runtime :: runtime where
  "sample_runtime =
     \<lparr>Date_parse = (\<lambda>s. if s = ''2024-01-01'' then Some 1704067200000 else None),
      localeDate = (\<lambda>t. ''1/1/2024''),
      localeTime = (\<lambda>t. ''12:00 AM''),
      cutoffDays = (\<lambda>k. 1704067200000 - 86400000 * real k),
      cutoffMonths = (\<lambda>k. 1704067200000 - 2592000000 * real k),
      cutoffYears = (\<lambda>k. 1704067200000 - 31536000000 * real k),
      mockDay = (\<lambda>i. 1704067200000 - 86400000 * real i),
      isoDay = (\<lambda>t. ''2024-01-01''),
      Math_random = (\<lambda>k. 1 / 2),
      fl = Num,
      StringToNumber = sampleStringToNumber,
      NumberToString = sampleNumberToString,
      maxArguments = 65535,
      errorMessage = sampleErrorMessage\<rparr>"

text \<open>Ten points at the time of the sample clock, with the prices 1 to 10.\<close>

definition tenPoints :: "PriceData list" where
  "tenPoints = [samplePoint 1 1704067200000, samplePoint 2 1704067200000,
     samplePoint 3 1704067200000, samplePoint 4 1704067200000, samplePoint 5 1704067200000,
     samplePoint 6 1704067200000, samplePoint 7 1704067200000, samplePoint 8 1704067200000,
     samplePoint 9 1704067200000, samplePoint 10 1704067200000]"

text \<open>A point as it is received, before normalisation.\<close>

definition receivedPoint :: "jsvalue \<Rightarrow> string \<Rightarrow> PriceData" where
  "receivedPoint p d =
     \<lparr>purchase_price = p, Date = d, formattedDate = None, formattedTime = None,
      formattedDateTime = None, timestamp = None\<rparr>"

text \<open>A parser of response bodies that knows one text, an object with an empty \<open>data\<close> array.\<close>

definition sample_JSON_parse :: "string \<Rightarrow> parsed option" where
  "sample_JSON_parse s =
     (if s = ''{\"data\":[]}'' then Some (ParsedValue (DataArray []) None) else None)"

text \<open>Reading a JSON object: the string under a key, and whether a key is there.\<close>

definition stringField :: "string \<Rightarrow> json \<Rightarrow> string option" where
  "stringField k j =
     (case j of
        JObject members \<Rightarrow> (case map_of members k of Some (JString s) \<Rightarrow> Some s | _ \<Rightarrow> None)
      | _ \<Rightarrow> None)"

definition hasField :: "string \<Rightarrow> json \<Rightarrow> bool" where
  "hasField k j = (case j of JObject members \<Rightarrow> k \<in> set (map fst members) | _ \<Rightarrow> False)"

text \<open>The body of an upstream response was read and is not JSON.\<close>

definition nonJsonBody :: "(string \<Rightarrow> json option) \<Rightarrow> Response \<Rightarrow> bool" where
  "nonJsonBody JSON_parse response =
     (case resp_text response of Inl err \<Rightarrow> False | Inr txt \<Rightarrow> JSON_parse txt = None)"

text \<open>A message for the statuses that \<open>NextResponse.json\<close> refuses.\<close>

definition sample_statusError :: "nat \<Rightarrow> string" where
  "sample_statusError s = ''Invalid response status code '' @ showNat s"

text \<open>A JSON parser for the route that knows one text, the empty array.\<close>

definition sample_parse :: "string \<Rightarrow> json option" where
  "sample_parse s = (if s = ''[]'' then Some (JArray []) else None)"

section \<open>Properties of down-sampling\<close>

declare sampleLoop.simps [simp del]

lemma samplingRate_div:
  assumes "0 < limit"
  shows "samplingRate n limit = (n + limit - 1) div limit"
proof -
  define q where "q = (n + limit - 1) div limit"
  have up: "n \<le> q * limit"
  proof -
    have "n + limit - 1 < (q + 1) * limit"
      unfolding q_def using assms
      by (metis Suc_eq_plus1 dividend_less_div_times mult.commute mult_Suc_right)
    then show ?thesis using assms by simp
  qed
  have lo: "q = 0 \<or> (q - 1) * limit < n"
  proof (cases "q = 0")
    case True
    then show ?thesis by simp
  next
    case False
    have "q * limit \<le> n + limit - 1"
      unfolding q_def by simp
    moreover have "q * limit = (q - 1) * limit + limit"
      using False by (cases q) simp_all
    ultimately show ?thesis using assms by linarith
  qed
  have "\<lceil>real n / real limit\<rceil> = int q"
  proof (rule ceiling_unique)
    show "real_of_int (int q) - 1 < real n / real limit"
    proof (cases "q = 0")
      case True
      have "0 \<le> real n / real limit" by simp
      then have "- 1 < real n / real limit" by linarith
      then show ?thesis using True by simp
    next
      case False
      with lo have "(q - 1) * limit < n" by simp
      then have "real ((q - 1) * limit) < real n" by (simp only: of_nat_less_iff)
      then have "(real q - 1) * real limit < real n" using False by simp
      then show ?thesis using assms by (simp add: pos_less_divide_eq)
    qed
    show "real n / real limit \<le> real_of_int (int q)"
    proof -
      have "real n \<le> real (q * limit)" using up by (simp only: of_nat_le_iff)
      then show ?thesis using assms by (simp add: pos_divide_le_eq)
    qed
  qed
  then show ?thesis by (simp add: q_def samplingRate_def)
qed

lemma samplingRate_ge_2:
  assumes "0 < limit" and "limit < n"
  shows "2 \<le> samplingRate n limit"
proof -
  have "2 * limit \<le> n + limit - 1" using assms by linarith
  then have "2 \<le> (n + limit - 1) div limit"
    using assms(1) by (metis div_le_mono div_mult_self_is_m)
  then show ?thesis using assms(1) by (simp add: samplingRate_div)
qed

text \<open>The loop only appends to the array it is given.\<close>

lemma sampleLoop_extends:
  "\<exists>ys. sampleLoop xs rate i acc = acc @ ys"
proof (induction xs rate i acc rule: sampleLoop.induct)
  case (1 xs rate i acc)
  show ?case
  proof (cases "0 < rate \<and> i < length xs - rate")
    case True
    from "1.IH" [OF True] obtain ys
      where "sampleLoop xs rate (i + rate) (acc @ [xs ! i]) = (acc @ [xs ! i]) @ ys"
      by blast
    moreover have "sampleLoop xs rate i acc
        = sampleLoop xs rate (i + rate) (acc @ [xs ! i])"
      using True by (subst sampleLoop.simps) simp
    ultimately have "sampleLoop xs rate i acc = acc @ (xs ! i # ys)" by simp
    then show ?thesis by blast
  next
    case False
    then show ?thesis by (subst sampleLoop.simps) auto
  qed
qed

text \<open>Each round of the loop moves the index by at least one.\<close>

lemma sampleLoop_length:
  "length (sampleLoop xs rate i acc) \<le> length acc + (length xs - rate - i)"
proof (induction xs rate i acc rule: sampleLoop.induct)
  case (1 xs rate i acc)
  show ?case
  proof (cases "0 < rate \<and> i < length xs - rate")
    case True
    have "sampleLoop xs rate i acc
        = sampleLoop xs rate (i + rate) (acc @ [xs ! i])"
      using True by (subst sampleLoop.simps) simp
    then have "length (sampleLoop xs rate i acc)
        \<le> length (acc @ [xs ! i]) + (length xs - rate - (i + rate))"
      using "1.IH" [OF True] by simp
    also have "\<dots> \<le> length acc + (length xs - rate - i)"
      using True by (simp del: diff_diff_left) linarith
    finally show ?thesis .
  next
    case False
    then show ?thesis by (subst sampleLoop.simps) auto
  qed
qed

text \<open>The shape of the output when the series is longer than the limit.\<close>

lemma optimizeDataForDisplay_shape:
  assumes "limit < length S"
  shows "\<exists>ys. optimizeDataForDisplay limit S = S ! 0 # ys @ [S ! (length S - 1)]"
proof (cases "limit = 0")
  case True
  with assms have "optimizeDataForDisplay limit S = S ! 0 # [] @ [S ! (length S - 1)]"
    by (auto simp: optimizeDataForDisplay_def)
  then show ?thesis by blast
next
  case False
  obtain ys where "sampleLoop S (samplingRate (length S) limit)
      (samplingRate (length S) limit) [S ! 0] = [S ! 0] @ ys"
    using sampleLoop_extends by blast
  with assms False
  have "optimizeDataForDisplay limit S = S ! 0 # ys @ [S ! (length S - 1)]"
    by (auto simp: optimizeDataForDisplay_def Let_def)
  then show ?thesis by blast
qed

lemma optimizeDataForDisplay_identity:
  "length S \<le> limit \<Longrightarrow> optimizeDataForDisplay limit S = S"
  by (simp add: optimizeDataForDisplay_def)

lemma optimizeDataForDisplay_nonempty:
  "S \<noteq> [] \<Longrightarrow> optimizeDataForDisplay limit S \<noteq> []"
  by (auto simp: optimizeDataForDisplay_def Let_def)

lemma optimizeDataForDisplay_shorter:
  assumes "0 < limit" and "limit < length S" and "3 \<le> length S"
  shows "length (optimizeDataForDisplay limit S) < length S"
proof -
  let ?r = "samplingRate (length S) limit"
  have r: "2 \<le> ?r" using assms by (rule_tac samplingRate_ge_2)
  have "length (sampleLoop S ?r ?r [S ! 0]) \<le> 1 + (length S - ?r - ?r)"
    using sampleLoop_length [of S ?r ?r "[S ! 0]"] by simp
  moreover have "optimizeDataForDisplay limit S
      = sampleLoop S ?r ?r [S ! 0] @ [S ! (length S - 1)]"
    using assms by (auto simp: optimizeDataForDisplay_def Let_def)
  ultimately have "length (optimizeDataForDisplay limit S) \<le> 2 + (length S - ?r - ?r)"
    by simp
  then show ?thesis using r assms(3) by linarith
qed

text \<open>Between two multiples of the rate the filter on the indices finds nothing.\<close>

lemma filter_skip:
  assumes "a \<le> b" and "\<And>j. a \<le> j \<Longrightarrow> j < b \<Longrightarrow> \<not> P j"
  shows "filter P [a ..< m] = filter P [b ..< m]"
proof (cases "b \<le> m")
  case True
  have "[a ..< m] = [a ..< b] @ [b ..< m]"
    using assms(1) True by (metis le_Suc_ex upt_add_eq_append)
  moreover have "filter P [a ..< b] = []"
    using assms(2) by (simp add: filter_empty_conv)
  ultimately show ?thesis by simp
next
  case False
  then have "filter P [a ..< m] = []"
    using assms(2) by (simp add: filter_empty_conv)
  moreover have "filter P [b ..< m] = []" using False by simp
  ultimately show ?thesis by (simp only:)
qed

text \<open>The loop pushes the points at the multiples of the rate below \<open>length xs - r\<close>.\<close>

lemma sampleLoop_closed:
  assumes "0 < r" and "i mod r = 0"
  shows "sampleLoop xs r i acc
       = acc @ map (\<lambda>j. xs ! j) (filter (\<lambda>j. j mod r = 0) [i ..< length xs - r])"
  using assms
proof (induction xs r i acc rule: sampleLoop.induct)
  case (1 xs r i acc)
  let ?P = "\<lambda>j. j mod r = 0"
  let ?m = "length xs - r"
  show ?case
  proof (cases "i < ?m")
    case True
    then have cond: "0 < r \<and> i < ?m" using "1.prems" by simp
    have step: "sampleLoop xs r i acc = sampleLoop xs r (i + r) (acc @ [xs ! i])"
      using cond by (subst sampleLoop.simps) simp
    have "(i + r) mod r = 0" using "1.prems" by simp
    then have ih: "sampleLoop xs r (i + r) (acc @ [xs ! i])
        = (acc @ [xs ! i]) @ map (\<lambda>j. xs ! j) (filter ?P [i + r ..< ?m])"
      using "1.IH" [OF cond] "1.prems" by simp
    have "[i ..< ?m] = i # [Suc i ..< ?m]" using True by (simp add: upt_conv_Cons)
    moreover have "filter ?P [Suc i ..< ?m] = filter ?P [i + r ..< ?m]"
    proof (rule filter_skip)
      show "Suc i \<le> i + r" using "1.prems" by simp
    next
      fix j assume "Suc i \<le> j" and "j < i + r"
      then obtain d where d: "j = i + d" "0 < d" "d < r"
        by (metis Suc_le_lessD less_imp_add_positive nat_add_left_cancel_less)
      have "j mod r = d mod r" using d(1) "1.prems"(2) by (simp add: mod_add_left_eq [symmetric] del: mod_add_left_eq)
      then show "\<not> j mod r = 0" using d by simp
    qed
    ultimately have "filter ?P [i ..< ?m] = i # filter ?P [i + r ..< ?m]"
      using "1.prems" by simp
    then show ?thesis using step ih by simp
  next
    case False
    then have "sampleLoop xs r i acc = acc" by (subst sampleLoop.simps) simp
    moreover have "filter ?P [i ..< ?m] = []" using False by simp
    ultimately show ?thesis by (simp only: list.map append_Nil2)
  qed
qed

text \<open>The output of down-sampling in closed form.\<close>

lemma optimizeDataForDisplay_closed:
  assumes "0 < L" and "L < length F"
  shows "optimizeDataForDisplay L F =
           F ! 0 # map (\<lambda>j. F ! j)
                     (filter (\<lambda>j. j mod samplingRate (length F) L = 0)
                        [samplingRate (length F) L ..< length F - samplingRate (length F) L])
           @ [F ! (length F - 1)]"
proof -
  have r: "0 < samplingRate (length F) L"
    using samplingRate_ge_2 [OF assms] by simp
  have "F \<noteq> []" using assms by auto
  then show ?thesis
    using assms sampleLoop_closed [OF r, of "samplingRate (length F) L" F "[F ! 0]"]
    by (simp add: optimizeDataForDisplay_def Let_def)
qed

text \<open>
  Claim C4. For every series \<open>S\<close> and every limit \<open>L < length S\<close>, the down-sampled
  output contains \<open>S[0]\<close> and \<open>S[length S - 1]\<close>: they are its first and its last
  element.
\<close>

theorem optimizeDataForDisplay_keeps_ends:
  assumes "L < length S"
  shows "S ! 0 \<in> set (optimizeDataForDisplay L S)
       \<and> S ! (length S - 1) \<in> set (optimizeDataForDisplay L S)
       \<and> hd (optimizeDataForDisplay L S) = S ! 0
       \<and> last (optimizeDataForDisplay L S) = S ! (length S - 1)"
proof -
  from optimizeDataForDisplay_shape [OF assms] obtain ys
    where "optimizeDataForDisplay L S = S ! 0 # ys @ [S ! (length S - 1)]"
    by blast
  then show ?thesis by simp
qed

theorem optimizeDataForDisplay_keeps_ends_witness:
  "(2::nat) < length [10, 20, 30, 40, 50 :: nat]
   \<and> [10, 20, 30, 40, 50 :: nat] ! 0 \<in> set (optimizeDataForDisplay 2 [10, 20, 30, 40, 50])
   \<and> [10, 20, 30, 40, 50 :: nat] ! (length [10, 20, 30, 40, 50 :: nat] - 1)
       \<in> set (optimizeDataForDisplay 2 [10, 20, 30, 40, 50])
   \<and> hd (optimizeDataForDisplay 2 [10, 20, 30, 40, 50 :: nat]) = 10
   \<and> last (optimizeDataForDisplay 2 [10, 20, 30, 40, 50 :: nat]) = 50"
proof -
  have h: "(2::nat) < length [10, 20, 30, 40, 50 :: nat]" by simp
  show ?thesis
    using h optimizeDataForDisplay_keeps_ends [OF h] by simp
qed

section \<open>Properties of zooming\<close>

lemma floor_half: "\<lfloor>real_of_int k / 2\<rfloor> = k div 2"
  by (simp add: floor_divide_of_int_eq [of k 2, simplified])

lemma floor_double: "\<lfloor>real_of_int k * 2\<rfloor> = 2 * k"
proof -
  have "real_of_int k * 2 = real_of_int (2 * k)" by simp
  then show ?thesis by (simp only: floor_of_int)
qed

lemma floor_quarter: "\<lfloor>real_of_int k * 0.25\<rfloor> = k div 4"
proof -
  have "real_of_int k * 0.25 = real_of_int k / real_of_int 4" by simp
  then show ?thesis by (simp only: floor_divide_of_int_eq)
qed

lemma floor_three_quarters: "\<lfloor>real_of_int k * 0.75\<rfloor> = (3 * k) div 4"
proof -
  have "real_of_int k * 0.75 = real_of_int (3 * k) / real_of_int 4" by simp
  then show ?thesis by (simp only: floor_divide_of_int_eq)
qed

text \<open>Clamping a window around a midpoint of the old range keeps it in the series.\<close>

lemma clamp_bounds:
  fixes a b n half mid :: int
  assumes "0 \<le> a" and "a \<le> b" and "b \<le> n - 1" and "0 \<le> half"
    and "mid = (a + b) div 2"
  shows "0 \<le> max 0 (mid - half)
       \<and> max 0 (mid - half) \<le> min (n - 1) (mid + half)
       \<and> min (n - 1) (mid + half) \<le> n - 1"
proof -
  have "0 \<le> mid" and "mid \<le> n - 1" using assms by linarith+
  then show ?thesis using assms(4) by simp
qed

text \<open>The two handlers in integer arithmetic.\<close>

lemma handleZoomIn_int:
  "handleZoomIn st =
     (if length (filteredData st) = 0 then st
      else
        (case zoomDomain st of
           None \<Rightarrow>
             st\<lparr>zoomDomain := Some (ZoomDomain
                 (int (length (filteredData st)) div 4,
                  (3 * int (length (filteredData st))) div 4) (0, 0))\<rparr>
         | Some zoom \<Rightarrow>
             st\<lparr>zoomDomain :=
                  Some (ZoomDomain
                    (max 0 ((fst (zoom_x zoom) + snd (zoom_x zoom)) div 2
                       - max 10 ((3 * (snd (zoom_x zoom) - fst (zoom_x zoom))) div 4) div 2),
                     min (int (length (filteredData st)) - 1)
                       ((fst (zoom_x zoom) + snd (zoom_x zoom)) div 2
                       + max 10 ((3 * (snd (zoom_x zoom) - fst (zoom_x zoom))) div 4) div 2))
                    (0, 0))\<rparr>))"
  by (simp only: handleZoomIn_def Let_def floor_quarter floor_three_quarters floor_half)

lemma handleZoomOut_int:
  "handleZoomOut st =
     (if length (filteredData st) = 0 then st
      else
        (case zoomDomain st of
           None \<Rightarrow> st
         | Some zoom \<Rightarrow>
             (let newDomain =
                    ZoomDomain
                      (max 0 ((fst (zoom_x zoom) + snd (zoom_x zoom)) div 2
                         - min (int (length (filteredData st)))
                             (2 * (snd (zoom_x zoom) - fst (zoom_x zoom))) div 2),
                       min (int (length (filteredData st)) - 1)
                         ((fst (zoom_x zoom) + snd (zoom_x zoom)) div 2
                         + min (int (length (filteredData st)))
                             (2 * (snd (zoom_x zoom) - fst (zoom_x zoom))) div 2))
                      (0, 0)
              in if fst (zoom_x newDomain) \<le> 5
                    \<and> int (length (filteredData st)) - 5 \<le> snd (zoom_x newDomain)
                 then st\<lparr>zoomDomain := None\<rparr>
                 else st\<lparr>zoomDomain := Some newDomain\<rparr>)))"
  by (simp only: handleZoomOut_def Let_def floor_double floor_half)

lemma handleZoomIn_filteredData: "filteredData (handleZoomIn st) = filteredData st"
  by (simp add: handleZoomIn_int split: option.splits)

lemma handleZoomOut_filteredData: "filteredData (handleZoomOut st) = filteredData st"
  by (simp add: handleZoomOut_int Let_def split: option.splits)

lemma zoomIn_bounds:
  assumes "filteredData st \<noteq> []" and "zoomInBounds st"
  shows "zoomInBounds (handleZoomIn st)"
proof (cases "zoomDomain st")
  case None
  have "0 < int (length (filteredData st))" using assms(1) by simp
  then have "0 \<le> int (length (filteredData st)) div 4
      \<and> int (length (filteredData st)) div 4 \<le> (3 * int (length (filteredData st))) div 4
      \<and> (3 * int (length (filteredData st))) div 4 \<le> int (length (filteredData st)) - 1"
    by linarith
  with None assms(1) show ?thesis
    by (simp add: handleZoomIn_int zoomInBounds_def)
next
  case (Some zoom)
  let ?a = "fst (zoom_x zoom)" and ?b = "snd (zoom_x zoom)"
  let ?half = "max 10 ((3 * (?b - ?a)) div 4) div 2"
  have "0 \<le> ?half" by linarith
  moreover have "0 \<le> ?a" "?a \<le> ?b" "?b \<le> int (length (filteredData st)) - 1"
    using assms(2) Some by (simp_all add: zoomInBounds_def)
  ultimately have "0 \<le> max 0 ((?a + ?b) div 2 - ?half)
       \<and> max 0 ((?a + ?b) div 2 - ?half)
           \<le> min (int (length (filteredData st)) - 1) ((?a + ?b) div 2 + ?half)
       \<and> min (int (length (filteredData st)) - 1) ((?a + ?b) div 2 + ?half)
           \<le> int (length (filteredData st)) - 1"
    by (intro clamp_bounds [where a = ?a and b = ?b]) simp_all
  with Some assms(1) show ?thesis
    by (simp add: handleZoomIn_int zoomInBounds_def del: max_less_iff_conj min_less_iff_conj)
qed

lemma zoomOut_bounds:
  assumes "filteredData st \<noteq> []" and "zoomInBounds st"
  shows "zoomInBounds (handleZoomOut st)"
proof (cases "zoomDomain st")
  case None
  with assms show ?thesis
    by (simp add: handleZoomOut_int zoomInBounds_def)
next
  case (Some zoom)
  let ?a = "fst (zoom_x zoom)" and ?b = "snd (zoom_x zoom)"
  let ?n = "int (length (filteredData st))"
  let ?half = "min ?n (2 * (?b - ?a)) div 2"
  have ab: "0 \<le> ?a" "?a \<le> ?b" "?b \<le> ?n - 1"
    using assms(2) Some by (simp_all add: zoomInBounds_def)
  have "0 < ?n" using assms(1) by simp
  with ab have "0 \<le> min ?n (2 * (?b - ?a))" by simp
  then have "0 \<le> ?half" by (rule pos_imp_zdiv_nonneg_iff [THEN iffD2, rotated]) simp
  with ab have "0 \<le> max 0 ((?a + ?b) div 2 - ?half)
       \<and> max 0 ((?a + ?b) div 2 - ?half) \<le> min (?n - 1) ((?a + ?b) div 2 + ?half)
       \<and> min (?n - 1) ((?a + ?b) div 2 + ?half) \<le> ?n - 1"
    by (intro clamp_bounds [where a = ?a and b = ?b]) simp_all
  with Some assms(1) show ?thesis
    by (simp add: handleZoomOut_int zoomInBounds_def Let_def
        del: max_less_iff_conj min_less_iff_conj)
qed

text \<open>
  Claim C10. For a non-empty filtered series of length \<open>n\<close>, and a state with no zoom
  or with a zoom range \<open>[start, end]\<close> such that \<open>0 \<le> start \<le> end \<le> n - 1\<close>, zooming in
  and zooming out both give no zoom or a range with the same bounds; the filtered
  series itself is not changed by either.
\<close>

theorem zoom_stays_in_bounds:
  assumes "filteredData st \<noteq> []" and "zoomInBounds st"
  shows "zoomInBounds (handleZoomIn st) \<and> zoomInBounds (handleZoomOut st)
       \<and> filteredData (handleZoomIn st) = filteredData st
       \<and> filteredData (handleZoomOut st) = filteredData st"
  using assms
  by (simp add: zoomIn_bounds zoomOut_bounds handleZoomIn_filteredData
      handleZoomOut_filteredData)

theorem zoom_stays_in_bounds_witness:
  "filteredData (initialState\<lparr>filteredData := replicate 100 (samplePoint 5 0),
                              zoomDomain := Some (ZoomDomain (25, 75) (0, 0))\<rparr>) \<noteq> []
   \<and> zoomInBounds (initialState\<lparr>filteredData := replicate 100 (samplePoint 5 0),
                                zoomDomain := Some (ZoomDomain (25, 75) (0, 0))\<rparr>)
   \<and> zoomInBounds (handleZoomIn (initialState\<lparr>filteredData := replicate 100 (samplePoint 5 0),
                                zoomDomain := Some (ZoomDomain (25, 75) (0, 0))\<rparr>))
   \<and> zoomInBounds (handleZoomOut (initialState\<lparr>filteredData := replicate 100 (samplePoint 5 0),
                                zoomDomain := Some (ZoomDomain (25, 75) (0, 0))\<rparr>))"
proof -
  let ?st = "initialState\<lparr>filteredData := replicate 100 (samplePoint 5 0),
                          zoomDomain := Some (ZoomDomain (25, 75) (0, 0))\<rparr>"
  have h1: "filteredData ?st \<noteq> []" by simp
  have h2: "zoomInBounds ?st" by (simp add: zoomInBounds_def)
  show ?thesis
    using h1 h2 zoom_stays_in_bounds [OF h1 h2] by simp
qed

section \<open>Properties of the charted points\<close>

lemma slice_in_range:
  assumes "0 \<le> a" and "a \<le> b" and "b < int (length xs)"
  shows "slice xs a (b + 1) = map (\<lambda>i. xs ! i) [nat a ..< nat b + 1]"
proof -
  have s: "slice xs a (b + 1) = take (nat (b + 1 - a)) (drop (nat a) xs)"
    using assms by (simp add: slice_def Let_def min_def)
  have "take (nat (b + 1 - a)) (drop (nat a) xs)
      = take (nat (b + 1 - a)) (drop (nat a) (map (\<lambda>i. xs ! i) [0 ..< length xs]))"
    by (simp add: map_nth)
  also have "\<dots> = map (\<lambda>i. xs ! i) (take (nat (b + 1 - a)) (drop (nat a) [0 ..< length xs]))"
    by (simp only: take_map drop_map)
  also have "take (nat (b + 1 - a)) (drop (nat a) [0 ..< length xs]) = [nat a ..< nat b + 1]"
  proof -
    have "drop (nat a) [0 ..< length xs] = [nat a ..< length xs]" by simp
    moreover have "nat a + nat (b + 1 - a) \<le> length xs" using assms by linarith
    moreover have "nat a + nat (b + 1 - a) = nat b + 1" using assms by linarith
    ultimately show ?thesis by (metis take_upt)
  qed
  finally show ?thesis using s by simp
qed

text \<open>
  Claim C5. When a zoom range \<open>[startIndex, endIndex]\<close> inside the filtered series is
  active and \<open>endIndex - startIndex\<close> is smaller than the limit, the charted points are
  the points of the filtered series at the indices \<open>startIndex, \<dots>, endIndex\<close>, without
  down-sampling: \<open>endIndex - startIndex + 1\<close> points. The witness is the zoom
  \<open>[400, 420]\<close> with the limit \<open>1000\<close>, which gives 21 points.
\<close>

theorem chartData_zoomed_all_points:
  assumes "zoomDomain st = Some zoom"
    and "zoom_x zoom = (startIndex, endIndex)"
    and "0 \<le> startIndex" and "startIndex \<le> endIndex"
    and "endIndex < int (length (filteredData st))"
    and "endIndex - startIndex < int (dataPointLimit st)"
  shows "chartData st = map (\<lambda>i. filteredData st ! i) [nat startIndex ..< nat endIndex + 1]
       \<and> int (length (chartData st)) = endIndex - startIndex + 1"
proof -
  have "filteredData st \<noteq> []" using assms(3,4,5) by auto
  then have "chartData st = slice (filteredData st) startIndex (endIndex + 1)"
    using assms(1,2,6) by (simp add: chartData_def Let_def)
  then have "chartData st = map (\<lambda>i. filteredData st ! i) [nat startIndex ..< nat endIndex + 1]"
    using slice_in_range [OF assms(3,4,5)] by simp
  moreover from this have "int (length (chartData st)) = endIndex - startIndex + 1"
    using assms(3,4) by simp
  ultimately show ?thesis by simp
qed

theorem chartData_zoomed_all_points_witness:
  "zoomDomain (initialState\<lparr>filteredData := replicate 500 (samplePoint 5 0),
                            displayData := replicate 500 (samplePoint 5 0),
                            zoomDomain := Some (ZoomDomain (400, 420) (0, 0)),
                            dataPointLimit := 1000\<rparr>)
     = Some (ZoomDomain (400, 420) (0, 0))
   \<and> (0::int) \<le> 400 \<and> (400::int) \<le> 420
   \<and> 420 < int (length (filteredData
         (initialState\<lparr>filteredData := replicate 500 (samplePoint 5 0),
                        displayData := replicate 500 (samplePoint 5 0),
                        zoomDomain := Some (ZoomDomain (400, 420) (0, 0)),
                        dataPointLimit := 1000\<rparr>)))
   \<and> 420 - 400 < int (dataPointLimit
         (initialState\<lparr>filteredData := replicate 500 (samplePoint 5 0),
                        displayData := replicate 500 (samplePoint 5 0),
                        zoomDomain := Some (ZoomDomain (400, 420) (0, 0)),
                        dataPointLimit := 1000\<rparr>))
   \<and> length (chartData (initialState\<lparr>filteredData := replicate 500 (samplePoint 5 0),
                                   displayData := replicate 500 (samplePoint 5 0),
                                   zoomDomain := Some (ZoomDomain (400, 420) (0, 0)),
                                   dataPointLimit := 1000\<rparr>)) = 21"
proof -
  let ?st = "initialState\<lparr>filteredData := replicate 500 (samplePoint 5 0),
                          displayData := replicate 500 (samplePoint 5 0),
                          zoomDomain := Some (ZoomDomain (400, 420) (0, 0)),
                          dataPointLimit := 1000\<rparr>"
  have h1: "zoomDomain ?st = Some (ZoomDomain (400, 420) (0, 0))" by simp
  have h2: "zoom_x (ZoomDomain (400, 420) (0, 0)) = (400, 420)" by simp
  have h3: "(0::int) \<le> 400" and h4: "(400::int) \<le> 420" by simp_all
  have h5: "420 < int (length (filteredData ?st))" by simp
  have h6: "420 - 400 < int (dataPointLimit ?st)" by simp
  have "int (length (chartData ?st)) = 420 - 400 + 1"
    using chartData_zoomed_all_points [OF h1 h2 h3 h4 h5 h6] by (rule conjunct2)
  then have "length (chartData ?st) = 21" by simp
  then show ?thesis using h1 h5 h6 by simp
qed

section \<open>Properties of windowing\<close>

lemma filterDataByPeriod_ALL:
  "cutoffDate rt period = None \<Longrightarrow>
     filteredData (filterDataByPeriod rt S period st) = S
     \<and> displayData (filterDataByPeriod rt S period st) = S"
  by (simp add: filterDataByPeriod_def)

lemma filterDataByPeriod_cutoff:
  assumes "cutoffDate rt period = Some cutoff" and "S \<noteq> []"
  shows "filteredData (filterDataByPeriod rt S period st)
           = (if filter (inPeriod rt cutoff) S = [] then S else filter (inPeriod rt cutoff) S)"
    and "displayData (filterDataByPeriod rt S period st)
           = optimizeDataForDisplay (dataPointLimit st)
               (filteredData (filterDataByPeriod rt S period st))"
  using assms by (simp_all add: filterDataByPeriod_def Let_def)

lemma filterDataByPeriod_nonempty:
  assumes "S \<noteq> []"
  shows "filteredData (filterDataByPeriod rt S period st) \<noteq> []
       \<and> displayData (filterDataByPeriod rt S period st) \<noteq> []"
proof (cases "cutoffDate rt period")
  case None
  then show ?thesis using assms by (simp add: filterDataByPeriod_ALL)
next
  case (Some cutoff)
  have "filteredData (filterDataByPeriod rt S period st) \<noteq> []"
    using assms by (simp add: filterDataByPeriod_cutoff(1) [OF Some assms])
  then show ?thesis
    by (simp add: filterDataByPeriod_cutoff(2) [OF Some assms] optimizeDataForDisplay_nonempty)
qed

text \<open>
  Claim C3. For every non-empty series \<open>S\<close> and every period: when the filter of the
  period keeps no point of \<open>S\<close>, the filtered series is the whole of \<open>S\<close>; and the
  filtered and the displayed series are never empty.
\<close>

theorem filterDataByPeriod_falls_back:
  assumes "S \<noteq> []"
  shows "filteredData (filterDataByPeriod rt S period st) \<noteq> []
       \<and> displayData (filterDataByPeriod rt S period st) \<noteq> []
       \<and> (pointsInWindow rt period S = []
            \<longrightarrow> filteredData (filterDataByPeriod rt S period st) = S)"
proof (cases "cutoffDate rt period")
  case None
  then show ?thesis
    using assms filterDataByPeriod_nonempty [OF assms, of rt period st]
    by (simp add: filterDataByPeriod_ALL)
next
  case (Some cutoff)
  then show ?thesis
    using filterDataByPeriod_nonempty [OF assms, of rt period st]
    by (simp add: filterDataByPeriod_cutoff(1) [OF Some assms] pointsInWindow_def)
qed

theorem filterDataByPeriod_falls_back_witness:
  "[samplePoint 5 1000, samplePoint 6 2000] \<noteq> []
   \<and> pointsInWindow sample_runtime Period_1W [samplePoint 5 1000, samplePoint 6 2000] = []
   \<and> filteredData (filterDataByPeriod sample_runtime [samplePoint 5 1000, samplePoint 6 2000]
                      Period_1W initialState)
       = [samplePoint 5 1000, samplePoint 6 2000]
   \<and> displayData (filterDataByPeriod sample_runtime [samplePoint 5 1000, samplePoint 6 2000]
                     Period_1W initialState) \<noteq> []"
proof -
  have h1: "[samplePoint 5 1000, samplePoint 6 2000] \<noteq> []" by simp
  have h2: "pointsInWindow sample_runtime Period_1W [samplePoint 5 1000, samplePoint 6 2000] = []"
    by (simp add: pointsInWindow_def inPeriod_def sample_runtime_def samplePoint_def
        optOrElse_def orElse_def newDate_def getTime_def)
  show ?thesis
    using h1 h2 filterDataByPeriod_falls_back [OF h1, of sample_runtime Period_1W initialState]
    by simp
qed

lemma cutoffDate_None_iff: "cutoffDate rt period = None \<longleftrightarrow> period = Period_ALL"
  by (cases period) simp_all

text \<open>
  Claim C1, as the code has it. For every period other than \<open>ALL\<close> and a positive
  limit, the displayed series is the filtered series when that has at most
  \<open>dataPointLimit\<close> points; otherwise it is the first point, the points at the
  multiples of the rate \<open>ceil(count / dataPointLimit)\<close> from the rate up to, but not
  including, \<open>count - rate\<close>, and the last point. For the period \<open>ALL\<close> the displayed
  series is the whole series as it is, whatever its length.
\<close>

theorem displayData_by_window:
  assumes "S \<noteq> []" and "0 < dataPointLimit st"
  shows "displayData (filterDataByPeriod rt S period st) =
           (if period = Period_ALL then S
            else if length (filteredData (filterDataByPeriod rt S period st)) \<le> dataPointLimit st
            then filteredData (filterDataByPeriod rt S period st)
            else
              filteredData (filterDataByPeriod rt S period st) ! 0
              # map (\<lambda>j. filteredData (filterDataByPeriod rt S period st) ! j)
                  (filter (\<lambda>j. j mod samplingRate
                                  (length (filteredData (filterDataByPeriod rt S period st)))
                                  (dataPointLimit st) = 0)
                     [samplingRate (length (filteredData (filterDataByPeriod rt S period st)))
                        (dataPointLimit st)
                      ..< length (filteredData (filterDataByPeriod rt S period st))
                          - samplingRate (length (filteredData (filterDataByPeriod rt S period st)))
                              (dataPointLimit st)])
              @ [filteredData (filterDataByPeriod rt S period st)
                   ! (length (filteredData (filterDataByPeriod rt S period st)) - 1)])"
proof (cases "cutoffDate rt period")
  case None
  then show ?thesis
    by (simp add: filterDataByPeriod_ALL cutoffDate_None_iff)
next
  case (Some cutoff)
  let ?F = "filteredData (filterDataByPeriod rt S period st)"
  have notall: "period \<noteq> Period_ALL" using Some cutoffDate_None_iff [of rt period] by auto
  have d: "displayData (filterDataByPeriod rt S period st)
      = optimizeDataForDisplay (dataPointLimit st) ?F"
    by (rule filterDataByPeriod_cutoff(2) [OF Some assms(1)])
  show ?thesis
  proof (cases "length ?F \<le> dataPointLimit st")
    case True
    then show ?thesis using d notall by (simp add: optimizeDataForDisplay_identity)
  next
    case False
    then have "dataPointLimit st < length ?F" by simp
    from optimizeDataForDisplay_closed [OF assms(2) this] show ?thesis
      using d notall False by (simp only: if_False)
  qed
qed

theorem displayData_by_window_witness:
  "tenPoints \<noteq> [] \<and> 0 < dataPointLimit (initialState\<lparr>dataPointLimit := 3\<rparr>)
   \<and> displayData (filterDataByPeriod sample_runtime tenPoints Period_1W
                    (initialState\<lparr>dataPointLimit := 3\<rparr>))
       = [samplePoint 1 1704067200000, samplePoint 5 1704067200000, samplePoint 10 1704067200000]"
proof -
  let ?st = "initialState\<lparr>dataPointLimit := 3\<rparr>"
  have h1: "tenPoints \<noteq> []" by (simp add: tenPoints_def)
  have h2: "0 < dataPointLimit ?st" by simp
  have F: "filteredData (filterDataByPeriod sample_runtime tenPoints Period_1W ?st) = tenPoints"
    by (simp add: filterDataByPeriod_def Let_def tenPoints_def inPeriod_def sample_runtime_def
        samplePoint_def optOrElse_def orElse_def)
  have r: "samplingRate 10 3 = 4" by (simp add: samplingRate_div)
  have l: "length tenPoints = 10" by (simp add: tenPoints_def)
  have u: "[4 ..< 6] = [4, 5::nat]" by (simp add: upt_rec)
  show ?thesis
    using h1 h2 displayData_by_window [OF h1 h2, of sample_runtime Period_1W]
    by (simp add: F l r u) (simp add: tenPoints_def)
qed

text \<open>
  The claim as stated fails for the period \<open>ALL\<close>: a series of 1000001 points, one more
  than the limit of the page, is displayed whole and not down-sampled.
\<close>

theorem displayData_ALL_not_downsampled:
  "displayData (filterDataByPeriod sample_runtime (replicate 1000001 (samplePoint 5 1000))
                  Period_ALL initialState)
     \<noteq> optimizeDataForDisplay (dataPointLimit initialState)
         (replicate 1000001 (samplePoint 5 1000))"
proof -
  have "length (optimizeDataForDisplay 1000000 (replicate 1000001 (samplePoint 5 1000)))
      < length (replicate 1000001 (samplePoint 5 1000))"
    by (rule optimizeDataForDisplay_shorter) simp_all
  moreover have "displayData (filterDataByPeriod sample_runtime
        (replicate 1000001 (samplePoint 5 1000)) Period_ALL initialState)
      = replicate 1000001 (samplePoint 5 1000)"
    by (simp add: filterDataByPeriod_ALL)
  moreover have "dataPointLimit initialState = 1000000" by (simp add: initialState_def)
  ultimately show ?thesis by (metis less_irrefl)
qed

section \<open>Properties of normalisation\<close>

lemma formatItem_object: "\<exists>formatted. formatItem rt (Some it) = Inr formatted"
  by (simp add: formatItem_def Let_def)

lemma normalizeItem_object:
  "normalizeItem rt (Some it) =
     Inr (it\<lparr>formattedDate := Some (toLocaleDateString rt (newDate rt (Date it))),
              formattedTime := Some (toLocaleTimeString rt (newDate rt (Date it))),
              formattedDateTime :=
                Some (toLocaleDateString rt (newDate rt (Date it)) @ '' ''
                      @ toLocaleTimeString rt (newDate rt (Date it))),
              timestamp := Some (newDate rt (Date it))\<rparr>)"
  by (simp add: normalizeItem_def formatItem_def Let_def getTime_def)

lemma normalizeItem_invalid_date:
  assumes "Date_parse rt (Date it) = None"
  shows "normalizeItem rt (Some it) =
           Inr (it\<lparr>formattedDate := Some ''Invalid Date'',
                    formattedTime := Some ''Invalid Date'',
                    formattedDateTime := Some ''Invalid Date Invalid Date'',
                    timestamp := Some NaN\<rparr>)"
  using assms
  by (simp add: normalizeItem_object newDate_def toLocaleDateString_def toLocaleTimeString_def)

lemma normalizeItem_price:
  "normalizeItem rt (Some it) = Inr formatted \<Longrightarrow> purchase_price formatted = purchase_price it"
  by (auto simp add: normalizeItem_object)

text \<open>A \<open>null\<close> among the points ends the whole \<open>map\<close> with a \<open>TypeError\<close>.\<close>

lemma normalizeItem_null: "normalizeItem rt None = Inl TypeError"
  by (simp add: normalizeItem_def formatItem_def invalidDateItem_def)

lemma normalizeItem_throws_only_TypeError: "normalizeItem rt item = Inl e \<Longrightarrow> e = TypeError"
  by (cases item) (simp_all add: normalizeItem_null normalizeItem_object)

lemma mapThrowing_null:
  "None \<in> set items \<Longrightarrow> mapThrowing (normalizeItem rt) items = Inl TypeError"
proof (induction items)
  case Nil
  then show ?case by simp
next
  case (Cons item items)
  show ?case
  proof (cases item)
    case None
    then show ?thesis by (simp add: normalizeItem_null)
  next
    case (Some it)
    with Cons show ?thesis by (simp add: normalizeItem_object)
  qed
qed

lemma processData_null: "None \<in> set items \<Longrightarrow> processData rt items = Inl TypeError"
  by (simp add: processData_def mapThrowing_null)

lemma mset_insertSorted: "mset (insertSorted cmp a bs) = add_mset a (mset bs)"
  by (induction bs) simp_all

lemma mset_sortBy: "mset (sortBy cmp as) = mset as"
  by (induction as) (simp_all add: mset_insertSorted)

text \<open>The points that come out are those of the map that pass the filter on the price.\<close>

lemma processData_mset:
  assumes "processData rt items = Inr processed"
  shows "\<exists>formatted. mapThrowing (normalizeItem rt) items = Inr formatted
           \<and> mset processed
               = mset (filter (\<lambda>item. \<not> isNaN (ToNumber rt (purchase_price item))) formatted)"
  using assms by (auto simp add: processData_def mset_sortBy split: sum.splits)

lemma processData_valid_prices:
  assumes "processData rt items = Inr processed" and "item \<in> set processed"
  shows "\<not> isNaN (ToNumber rt (purchase_price item))"
proof -
  from processData_mset [OF assms(1)] obtain formatted
    where "mset processed
        = mset (filter (\<lambda>item. \<not> isNaN (ToNumber rt (purchase_price item))) formatted)"
    by blast
  moreover have "item \<in># mset processed" using assms(2) by simp
  ultimately show ?thesis by simp
qed

text \<open>
  Claim C2, at a point whose date string is not a date. The point is kept, but the
  \<open>catch\<close> block that would give it the label \<open>Invalid date\<close> and the timestamp \<open>0\<close>
  is not entered, because \<open>new Date\<close> does not throw: the labels are the host's
  \<open>Invalid Date\<close> and the timestamp is \<open>NaN\<close>. (The second half of the claim holds:
  \<open>processData_valid_prices\<close> and \<open>invalid_price_dropped\<close>.)
\<close>

theorem invalid_date_keeps_NaN_timestamp:
  "processData sample_runtime [Some (receivedPoint (JSNumber (Num 10)) ''not a date'')] =
     Inr [\<lparr>purchase_price = JSNumber (Num 10), Date = ''not a date'',
            formattedDate = Some ''Invalid Date'', formattedTime = Some ''Invalid Date'',
            formattedDateTime = Some ''Invalid Date Invalid Date'', timestamp = Some NaN\<rparr>]"
  by (simp add: processData_def normalizeItem_def formatItem_def Let_def newDate_def getTime_def
      toLocaleDateString_def toLocaleTimeString_def sample_runtime_def receivedPoint_def)

text \<open>The price \<open>"abc"\<close> does not pass the filter; the prices \<open>"12"\<close> and \<open>"8"\<close> do, as strings.\<close>

lemma invalid_price_dropped:
  "processData sample_runtime [Some (receivedPoint (JSString ''abc'') ''2024-01-01'')] = Inr []"
  by (simp add: processData_def normalizeItem_object receivedPoint_def sample_runtime_def
      sampleStringToNumber_def)

lemma numeric_strings_kept:
  "\<exists>processed.
     processData sample_runtime
       [Some (receivedPoint (JSString ''12'') ''2024-01-01''),
        Some (receivedPoint (JSString ''8'') ''2024-01-01'')] = Inr processed
     \<and> map purchase_price processed = [JSString ''12'', JSString ''8'']"
  by (simp add: processData_def normalizeItem_object receivedPoint_def sample_runtime_def
      sampleStringToNumber_def digitsToNat_def compareTimestamps_def optOrElse_def orElse_def
      newDate_def jminus_def)

section \<open>Properties of the synthetic series and of fetching\<close>

lemma mockLoop_rev:
  "mockLoop rt base n acc = acc @ rev (map (mockPoint rt base) [0 ..< n])"
  by (induction n arbitrary: acc) simp_all

lemma generateMockData_data:
  "data (generateMockData rt name) = rev (map (mockPoint rt (basePrice name)) [0 ..< 366])"
  by (simp add: generateMockData_def Let_def mockLoop_rev)

lemma generateMockData_length: "length (data (generateMockData rt name)) = 366"
  by (simp add: generateMockData_data)

lemma generateMockData_nth:
  assumes "k < 366"
  shows "data (generateMockData rt name) ! k = mockPoint rt (basePrice name) (365 - k)"
proof -
  have "rev (map (mockPoint rt (basePrice name)) [0 ..< 366]) ! k
      = map (mockPoint rt (basePrice name)) [0 ..< 366] ! (366 - Suc k)"
    using assms by (simp add: rev_nth)
  also have "\<dots> = mockPoint rt (basePrice name) (365 - k)"
    using assms by (simp del: upt_Suc)
  finally show ?thesis by (simp add: generateMockData_data)
qed

lemma mockPoint_price: "purchase_price (mockPoint rt base i) = JSNumber (mockPrice base i)"
  by (simp add: mockPoint_def Let_def)

text \<open>
  Rounding a number of at least 1 to two decimals gives a positive number; a generated
  price is therefore truthy, and \<open>|| currentPrice\<close> never replaces one.
\<close>

lemma toFixed2_pos:
  assumes "1 \<le> a"
  shows "\<exists>b. toFixed2 (Num a) = Num b \<and> 0 < b"
proof (cases "10 ^ 21 \<le> \<bar>a\<bar>")
  case True
  then show ?thesis using assms by simp
next
  case False
  have "1 \<le> \<lfloor>\<bar>a\<bar> * 100 + 1 / 2\<rfloor>" using assms by (simp add: le_floor_iff)
  then have pos: "0 < real_of_int \<lfloor>\<bar>a\<bar> * 100 + 1 / 2\<rfloor> / 100" by simp
  have "sgn a = 1" using assms by simp
  then have "toFixed2 (Num a) = Num (real_of_int \<lfloor>\<bar>a\<bar> * 100 + 1 / 2\<rfloor> / 100)"
    using False by simp
  with pos show ?thesis by blast
qed

lemma mockPrice_truthy:
  assumes "200 \<le> base"
  shows "truthy (mockPrice base i)"
proof -
  let ?x = "real base + sin (real i / 30) * 20
              + (sin (real i) * 10 + cos (real i * 2) * 5) + real i / 365 * 50"
  have "- 1 \<le> sin (real i / 30)" "- 1 \<le> sin (real i)" "- 1 \<le> cos (real i * 2)"
    by simp_all
  moreover have "200 \<le> real base" using assms by simp
  moreover have "0 \<le> real i / 365 * 50" by simp
  ultimately have "1 \<le> ?x" by linarith
  from toFixed2_pos [OF this] obtain b where "toFixed2 (Num ?x) = Num b" and "0 < b"
    by blast
  then show ?thesis by (simp add: mockPrice_def Let_def)
qed

lemma basePrice_ge: "200 \<le> basePrice name"
  by (simp add: basePrice_def)

lemma generateMockData_stats:
  "stats (generateMockData rt name) =
     \<lparr>price = mockPrice (basePrice name) 0,
      per_day = changeSince (mockPrice (basePrice name) 0) (mockPrice (basePrice name) 1),
      per_week = changeSince (mockPrice (basePrice name) 0) (mockPrice (basePrice name) 6),
      per_month = changeSince (mockPrice (basePrice name) 0) (mockPrice (basePrice name) 29),
      per_year = changeSince (mockPrice (basePrice name) 0) (mockPrice (basePrice name) 365)\<rparr>"
proof -
  let ?d = "data (generateMockData rt name)"
  let ?b = "basePrice name"
  have len: "length ?d = 366" by (rule generateMockData_length)
  have p: "\<And>k. k < 366 \<Longrightarrow> purchase_price (?d ! k) = JSNumber (mockPrice ?b (365 - k))"
    by (simp add: generateMockData_nth mockPoint_price)
  have t: "\<And>i. valueOrElse (JSNumber (mockPrice ?b i)) (JSNumber (mockPrice ?b 0))
      = JSNumber (mockPrice ?b i)"
    by (simp add: valueOrElse_def mockPrice_truthy basePrice_ge)
  have cur: "purchase_price (?d ! (length ?d - 1)) = JSNumber (mockPrice ?b 0)"
    using p [of 365] len by simp
  have b2: "priceBack ?d 2 (JSNumber (mockPrice ?b 0)) = JSNumber (mockPrice ?b 1)"
    using p [of 364] len t by (simp add: priceBack_def)
  have b7: "priceBack ?d 7 (JSNumber (mockPrice ?b 0)) = JSNumber (mockPrice ?b 6)"
    using p [of 359] len t by (simp add: priceBack_def)
  have b30: "priceBack ?d 30 (JSNumber (mockPrice ?b 0)) = JSNumber (mockPrice ?b 29)"
    using p [of 336] len t by (simp add: priceBack_def)
  have b0: "priceBack ?d (length ?d) (JSNumber (mockPrice ?b 0)) = JSNumber (mockPrice ?b 365)"
    using p [of 0] len t by (simp add: priceBack_def)
  have "stats (generateMockData rt name) = mockStats rt ?d"
    by (simp add: generateMockData_def Let_def)
  also have "\<dots> = \<lparr>price = mockPrice ?b 0,
      per_day = changeSince (mockPrice ?b 0) (mockPrice ?b 1),
      per_week = changeSince (mockPrice ?b 0) (mockPrice ?b 6),
      per_month = changeSince (mockPrice ?b 0) (mockPrice ?b 29),
      per_year = changeSince (mockPrice ?b 0) (mockPrice ?b 365)\<rparr>"
    unfolding mockStats_def Let_def by (simp only: cur b2 b7 b30 b0 ToNumber.simps)
  finally show ?thesis .
qed


lemma filterDataByPeriod_frame:
  "showNoDataMessage (filterDataByPeriod rt S period st) = showNoDataMessage st"
  "error (filterDataByPeriod rt S period st) = error st"
  "priceData (filterDataByPeriod rt S period st) = priceData st"
  "pageStats (filterDataByPeriod rt S period st) = pageStats st"
  "isLoading (filterDataByPeriod rt S period st) = isLoading st"
  "isRefreshing (filterDataByPeriod rt S period st) = isRefreshing st"
  "toasts (filterDataByPeriod rt S period st) = toasts st"
  by (simp_all add: filterDataByPeriod_def Let_def split: option.splits)

lemma addToast_frame:
  "showNoDataMessage (addToast b t st) = showNoDataMessage st"
  "error (addToast b t st) = error st"
  "priceData (addToast b t st) = priceData st"
  "pageStats (addToast b t st) = pageStats st"
  "filteredData (addToast b t st) = filteredData st"
  "displayData (addToast b t st) = displayData st"
  "selectedPeriod (addToast b t st) = selectedPeriod st"
  "dataPointLimit (addToast b t st) = dataPointLimit st"
  by (simp_all add: addToast_def)

lemma useMockData_fields:
  "priceData (useMockData rt name st) = data (generateMockData rt name)"
  "pageStats (useMockData rt name st) = Some (stats (generateMockData rt name))"
  "showNoDataMessage (useMockData rt name st) = showNoDataMessage st"
  "error (useMockData rt name st) = error st"
  by (simp_all add: useMockData_def Let_def filterDataByPeriod_frame)

lemma useMockData_nonempty:
  "filteredData (useMockData rt name st) \<noteq> [] \<and> displayData (useMockData rt name st) \<noteq> []"
proof -
  have "data (generateMockData rt name) \<noteq> []"
    using generateMockData_length [of rt name] by auto
  from filterDataByPeriod_nonempty [OF this] show ?thesis
    by (simp add: useMockData_def Let_def)
qed

lemma trim_Nil: "trim [] = []"
  by (simp add: trim_def)

lemma fetchBody_empty_data:
  assumes "200 \<le> status" and "status \<le> 299"
    and "body = Some responseText" and "trim responseText \<noteq> []"
    and "JSON_parse responseText = Some (ParsedValue (DataArray []) s)"
  shows "fetchBody JSON_parse rt itemName refreshing showToast (Responded status body) st =
           Inr ((addToast showToast
                  \<lparr>title = ''No price data available'',
                   description = ''Using sample data for preview purposes'',
                   variant = Some ''warning''\<rparr>
                  (useMockData rt itemName (st\<lparr>showNoDataMessage := True\<rparr>)))
                \<lparr>isLoading := False, isRefreshing := False\<rparr>)"
proof -
  have "responseText \<noteq> []" using assms(4) trim_Nil by auto
  then have "readJson JSON_parse body = Inr (ParsedValue (DataArray []) s)"
    using assms(3,4,5) by (simp add: readJson_def)
  then show ?thesis
    using assms(1,2) by (simp add: fetchBody_def Let_def)
qed

text \<open>
  Claim C6. When the upstream answers with a status from 200 to 299 and a body that
  parses to a value whose \<open>data\<close> is an array of length 0, the fetch sets
  \<open>showNoDataMessage\<close> and leaves \<open>error\<close> unset, and the page still gets the 366
  synthetic points, their statistics, and non-empty filtered and displayed series.
\<close>

theorem empty_data_signals_no_data:
  fixes JSON_parse rt itemName refreshing showToast status body st
  assumes "200 \<le> status" and "status \<le> 299"
    and "body = Some responseText" and "trim responseText \<noteq> []"
    and "JSON_parse responseText = Some (ParsedValue (DataArray []) s)"
  defines "st' \<equiv> fetchItemStats JSON_parse rt itemName refreshing showToast
                    (Responded status body) st"
  shows "showNoDataMessage st' \<and> error st' = None
       \<and> priceData st' = data (generateMockData rt itemName)
       \<and> length (priceData st') = 366
       \<and> pageStats st' = Some (stats (generateMockData rt itemName))
       \<and> filteredData st' \<noteq> [] \<and> displayData st' \<noteq> []
       \<and> \<not> isLoading st' \<and> \<not> isRefreshing st'"
proof -
  let ?st0 = "st\<lparr>isLoading := True, error := None, showNoDataMessage := False,
                  retryCount := 0\<rparr>"
  let ?m = "useMockData rt itemName (?st0\<lparr>showNoDataMessage := True\<rparr>)"
  let ?t = "addToast showToast
              \<lparr>title = ''No price data available'',
               description = ''Using sample data for preview purposes'',
               variant = Some ''warning''\<rparr> ?m"
  have "st' = ?t\<lparr>isLoading := False, isRefreshing := False\<rparr>"
    unfolding st'_def fetchItemStats_def Let_def
    by (simp add: fetchBody_empty_data
        [where JSON_parse = JSON_parse and responseText = responseText, OF assms(1-5)])
  then show ?thesis
    using useMockData_nonempty [of rt itemName "?st0\<lparr>showNoDataMessage := True\<rparr>"]
    by (simp add: addToast_frame useMockData_fields generateMockData_length)
qed

theorem empty_data_signals_no_data_witness:
  "(200::nat) \<le> 200 \<and> (200::nat) \<le> 299
   \<and> trim ''{\"data\":[]}'' \<noteq> []
   \<and> sample_JSON_parse ''{\"data\":[]}'' = Some (ParsedValue (DataArray []) None)
   \<and> showNoDataMessage (fetchItemStats sample_JSON_parse sample_runtime ''Sword of Embers''
         False False (Responded 200 (Some ''{\"data\":[]}'')) initialState)
   \<and> error (fetchItemStats sample_JSON_parse sample_runtime ''Sword of Embers''
         False False (Responded 200 (Some ''{\"data\":[]}'')) initialState) = None
   \<and> length (priceData (fetchItemStats sample_JSON_parse sample_runtime ''Sword of Embers''
         False False (Responded 200 (Some ''{\"data\":[]}'')) initialState)) = 366"
proof -
  have h1: "(200::nat) \<le> 200" and h2: "(200::nat) \<le> 299" by simp_all
  have h3: "Some ''{\"data\":[]}'' = Some ''{\"data\":[]}''" by simp
  have h4: "trim ''{\"data\":[]}'' \<noteq> []" by (simp add: trim_def isWhiteSpace_def)
  have h5: "sample_JSON_parse ''{\"data\":[]}'' = Some (ParsedValue (DataArray []) None)"
    by (simp add: sample_JSON_parse_def)
  show ?thesis
    using h4 h5 empty_data_signals_no_data
      [where JSON_parse = sample_JSON_parse and responseText = "''{\"data\":[]}''"
         and rt = sample_runtime and itemName = "''Sword of Embers''"
         and refreshing = False and showToast = False and st = initialState,
       OF h1 h2 h3 h4 h5]
    by auto
qed

text \<open>
  A \<open>null\<close> among the points received ends the \<open>try\<close> block with the \<open>TypeError\<close>:
  the \<open>catch\<close> block sets the error and installs the synthetic series.
\<close>

lemma fetchItemStats_null_point:
  assumes "200 \<le> status" and "status \<le> 299"
    and "body = Some responseText" and "trim responseText \<noteq> []"
    and "JSON_parse responseText = Some (ParsedValue (DataArray items) s)"
    and "None \<in> set items"
  shows "fetchItemStats JSON_parse rt itemName refreshing showToast (Responded status body) st =
     (fetchFailed rt itemName showToast (Some (errorMessage rt TypeError))
        (st\<lparr>isLoading := True, error := None, showNoDataMessage := False, retryCount := 0\<rparr>))
     \<lparr>isLoading := False, isRefreshing := False\<rparr>"
proof -
  have "responseText \<noteq> []" using assms(4) trim_Nil by auto
  then have "readJson JSON_parse body = Inr (ParsedValue (DataArray items) s)"
    using assms(3,4,5) by (simp add: readJson_def)
  moreover have "items \<noteq> []" using assms(6) by auto
  ultimately show ?thesis
    using assms(1,2) processData_null [OF assms(6), of rt]
    by (simp add: fetchItemStats_def fetchBody_def Let_def)
qed

lemma fetchItemStats_rejected:
  "fetchItemStats JSON_parse rt itemName refreshing showToast (Rejected err) st =
     (fetchFailed rt itemName showToast err
        (st\<lparr>isLoading := True, error := None, showNoDataMessage := False, retryCount := 0\<rparr>))
     \<lparr>isLoading := False, isRefreshing := False\<rparr>"
  by (simp add: fetchItemStats_def fetchBody_def Let_def)

lemma fetchFailed_fields:
  "priceData (fetchFailed rt name showToast err st) = data (generateMockData rt name)"
  "pageStats (fetchFailed rt name showToast err st) = Some (stats (generateMockData rt name))"
  "showNoDataMessage (fetchFailed rt name showToast err st) = showNoDataMessage st"
  "error (fetchFailed rt name showToast err st) =
     Some (case err of
             Some m \<Rightarrow> if m \<noteq> [] then m else ''Failed to load item statistics''
           | None \<Rightarrow> ''Failed to load item statistics'')"
  by (simp_all add: fetchFailed_def Let_def useMockData_fields addToast_frame)

text \<open>
  Claim C7, as the code has it. When \<open>fetch\<close> rejects, the page gets exactly 366
  synthetic points and an error message, \<open>showNoDataMessage\<close> stays false, and the
  statistics are those of the synthetic series: the current price is that of the last
  point, and the changes per day, week, month and year compare it with the points 1,
  6, 29 and 365 places before the last.
\<close>

theorem fetch_rejected_uses_synthetic_series:
  fixes JSON_parse rt itemName refreshing showToast err st
  defines "st' \<equiv> fetchItemStats JSON_parse rt itemName refreshing showToast (Rejected err) st"
  shows "length (priceData st') = 366
       \<and> priceData st' = data (generateMockData rt itemName)
       \<and> \<not> showNoDataMessage st'
       \<and> (\<exists>m. error st' = Some m \<and> m \<noteq> [])
       \<and> pageStats st'
           = Some \<lparr>price = mockPrice (basePrice itemName) 0,
                   per_day = changeSince (mockPrice (basePrice itemName) 0)
                               (mockPrice (basePrice itemName) 1),
                   per_week = changeSince (mockPrice (basePrice itemName) 0)
                                (mockPrice (basePrice itemName) 6),
                   per_month = changeSince (mockPrice (basePrice itemName) 0)
                                 (mockPrice (basePrice itemName) 29),
                   per_year = changeSince (mockPrice (basePrice itemName) 0)
                                (mockPrice (basePrice itemName) 365)\<rparr>
       \<and> (\<forall>k < 366. purchase_price (priceData st' ! k)
                        = JSNumber (mockPrice (basePrice itemName) (365 - k)))"
  unfolding st'_def
  by (auto simp add: fetchItemStats_rejected fetchFailed_fields generateMockData_length
      generateMockData_stats generateMockData_nth mockPoint_price split: option.splits)

theorem fetch_rejected_uses_synthetic_series_witness:
  "(364::nat) < 366
   \<and> length (priceData (fetchItemStats sample_JSON_parse sample_runtime ''Sword of Embers''
         False False (Rejected (Some ''Failed to fetch'')) initialState)) = 366
   \<and> purchase_price
        (priceData (fetchItemStats sample_JSON_parse sample_runtime ''Sword of Embers''
           False False (Rejected (Some ''Failed to fetch'')) initialState) ! 364)
       = JSNumber (mockPrice (basePrice ''Sword of Embers'') 1)
   \<and> error (fetchItemStats sample_JSON_parse sample_runtime ''Sword of Embers''
         False False (Rejected (Some ''Failed to fetch'')) initialState)
       = Some ''Failed to fetch''"
proof -
  have h: "(364::nat) < 366" by simp
  have e: "error (fetchItemStats sample_JSON_parse sample_runtime ''Sword of Embers''
         False False (Rejected (Some ''Failed to fetch'')) initialState)
       = Some ''Failed to fetch''"
    by (simp add: fetchItemStats_rejected fetchFailed_fields)
  note t = fetch_rejected_uses_synthetic_series [of sample_JSON_parse sample_runtime
      "''Sword of Embers''" False False "Some ''Failed to fetch''" initialState]
  have l: "length (priceData (fetchItemStats sample_JSON_parse sample_runtime
      ''Sword of Embers'' False False (Rejected (Some ''Failed to fetch'')) initialState)) = 366"
    using t by blast
  have "\<forall>k<366. purchase_price
      (priceData (fetchItemStats sample_JSON_parse sample_runtime ''Sword of Embers''
         False False (Rejected (Some ''Failed to fetch'')) initialState) ! k)
      = JSNumber (mockPrice (basePrice ''Sword of Embers'') (365 - k))"
    using t by blast
  then have p: "purchase_price
      (priceData (fetchItemStats sample_JSON_parse sample_runtime ''Sword of Embers''
         False False (Rejected (Some ''Failed to fetch'')) initialState) ! 364)
      = JSNumber (mockPrice (basePrice ''Sword of Embers'') (365 - 364))"
    using h by blast
  show ?thesis using h l p e by simp
qed

text \<open>
  The claim as stated fails: after a rejected fetch for \<open>Sword of Embers\<close> the flag
  \<open>showNoDataMessage\<close> is false.
\<close>

theorem fetch_rejected_no_data_flag_unset:
  "\<not> showNoDataMessage (fetchItemStats sample_JSON_parse sample_runtime ''Sword of Embers''
        False False (Rejected (Some ''Failed to fetch'')) initialState)"
  by (simp add: fetchItemStats_rejected fetchFailed_fields)

section \<open>Properties of the aggregates\<close>

lemma foldl_jmin_Num: "foldl jmin (Num a) (map Num ps) = Num (foldl min a ps)"
  by (induction ps arbitrary: a) simp_all

lemma foldl_jmax_Num: "foldl jmax (Num a) (map Num ps) = Num (foldl max a ps)"
  by (induction ps arbitrary: a) simp_all

lemma Math_min_Num:
  assumes "ps \<noteq> []"
  shows "Math_min (map Num ps) = Num (Min (set ps))"
proof -
  obtain p qs where ps: "ps = p # qs" using assms by (cases ps) auto
  have "foldl min p qs = fold min qs p"
    by (simp add: foldl_conv_fold min.commute)
  also have "\<dots> = Min (set (p # qs))" by (simp only: Min.set_eq_fold)
  finally show ?thesis by (simp add: Math_min_def ps foldl_jmin_Num)
qed

lemma Math_max_Num:
  assumes "ps \<noteq> []"
  shows "Math_max (map Num ps) = Num (Max (set ps))"
proof -
  obtain p qs where ps: "ps = p # qs" using assms by (cases ps) auto
  have "foldl max p qs = fold max qs p"
    by (simp add: foldl_conv_fold max.commute)
  also have "\<dots> = Max (set (p # qs))" by (simp only: Max.set_eq_fold)
  finally show ?thesis by (simp add: Math_max_def ps foldl_jmax_Num)
qed

text \<open>On prices that are numbers the \<open>reduce\<close> is a sum of doubles, from the left.\<close>

lemma reduce_numbers:
  "map purchase_price fd = map (\<lambda>p. JSNumber (Num p)) ps \<Longrightarrow>
     foldl (\<lambda>sum item. plusValue rt sum (purchase_price item)) (JSNumber a) fd
       = JSNumber (foldl (plusDouble rt) a (map Num ps))"
proof (induction fd arbitrary: ps a)
  case Nil
  then show ?case by simp
next
  case (Cons item fd)
  then obtain p qs where ps: "ps = p # qs" "purchase_price item = JSNumber (Num p)"
      "map purchase_price fd = map (\<lambda>p. JSNumber (Num p)) qs"
    by (cases ps) auto
  then show ?case
    using Cons.IH [of qs "plusDouble rt a (Num p)"] by (simp add: plusValue_def)
qed

text \<open>
  For a series of prices that are numbers, within the argument limit, the
  aggregates are the scaled least and greatest price and the mean, in the arithmetic
  of doubles.
\<close>

lemma priceAggregates_numbers:
  assumes "map purchase_price fd = map (\<lambda>p. JSNumber (Num p)) ps" and "ps \<noteq> []"
    and "length fd \<le> maxArguments rt"
  shows "priceAggregates rt fd =
           Inr \<lparr>minPrice = timesDouble rt (Num (Min (set ps))) (fl rt 0.98),
                maxPrice = timesDouble rt (Num (Max (set ps))) (fl rt 1.02),
                avgPrice = divDouble rt (foldl (plusDouble rt) (Num 0) (map Num ps))
                             (Num (real (length ps)))\<rparr>"
proof -
  have len: "length fd = length ps" using assms(1) by (metis length_map)
  then have ne: "fd \<noteq> []" using assms(2) by auto
  have nums: "map (ToNumber rt) (map purchase_price fd) = map Num ps"
    by (simp add: assms(1) comp_def)
  show ?thesis
    using ne len assms(2,3)
    by (simp add: priceAggregates_def Let_def nums Math_min_Num [OF assms(2)]
        Math_max_Num [OF assms(2)] reduce_numbers [OF assms(1)] del: map_map)
qed

text \<open>
  Claim C8, at a filtered series whose two prices are the strings \<open>"12"\<close> and \<open>"8"\<close>,
  which the validation lets through as they are (\<open>numeric_strings_kept\<close>). The least
  and the greatest price are scaled as the claim says, but the \<open>reduce\<close> concatenates:
  \<open>0 + "12" + "8"\<close> is the string \<open>"0128"\<close>, and the average is \<open>128 / 2 = 64\<close>, not
  the mean \<open>10\<close>. The hypotheses on the host are conversions that every host makes.
\<close>

theorem average_of_numeric_strings:
  assumes "map purchase_price fd = [JSString ''12'', JSString ''8'']"
    and "NumberToString rt (Num 0) = ''0''"
    and "StringToNumber rt ''12'' = Num 12" and "StringToNumber rt ''8'' = Num 8"
    and "StringToNumber rt ''0128'' = Num 128"
    and "fl rt 64 = Num 64" and "2 \<le> maxArguments rt"
  shows "priceAggregates rt fd =
           Inr \<lparr>minPrice = timesDouble rt (Num 8) (fl rt 0.98),
                maxPrice = timesDouble rt (Num 12) (fl rt 1.02),
                avgPrice = Num 64\<rparr>
       \<and> Num 64 \<noteq> Num ((12 + 8) / 2)"
proof -
  obtain a b where fd: "fd = [a, b]" "purchase_price a = JSString ''12''"
      "purchase_price b = JSString ''8''"
    using assms(1) by (cases fd; cases "tl fd") auto
  have sum: "plusValue rt (plusValue rt (JSNumber (Num 0)) (JSString ''12'')) (JSString ''8'')
      = JSString ''0128''"
    by (simp add: plusValue_def assms(2))
  have "divDouble rt (Num 128) (Num 2) = Num 64"
    by (simp add: divDouble_def rounded_def assms(6))
  then show ?thesis
    using assms(3,4,5,7)
    by (simp add: priceAggregates_def Let_def sum fd Math_min_def Math_max_def)
qed

theorem average_of_numeric_strings_witness:
  "map purchase_price
     [receivedPoint (JSString ''12'') ''2024-01-01'',
      receivedPoint (JSString ''8'') ''2024-01-01''] = [JSString ''12'', JSString ''8'']
   \<and> NumberToString sample_runtime (Num 0) = ''0''
   \<and> StringToNumber sample_runtime ''12'' = Num 12
   \<and> StringToNumber sample_runtime ''8'' = Num 8
   \<and> StringToNumber sample_runtime ''0128'' = Num 128
   \<and> fl sample_runtime 64 = Num 64 \<and> 2 \<le> maxArguments sample_runtime
   \<and> priceAggregates sample_runtime
        [receivedPoint (JSString ''12'') ''2024-01-01'',
         receivedPoint (JSString ''8'') ''2024-01-01'']
       = Inr \<lparr>minPrice = timesDouble sample_runtime (Num 8) (fl sample_runtime 0.98),
              maxPrice = timesDouble sample_runtime (Num 12) (fl sample_runtime 1.02),
              avgPrice = Num 64\<rparr>"
proof -
  let ?fd = "[receivedPoint (JSString ''12'') ''2024-01-01'',
              receivedPoint (JSString ''8'') ''2024-01-01'']"
  have h1: "map purchase_price ?fd = [JSString ''12'', JSString ''8'']"
    by (simp add: receivedPoint_def)
  have h2: "NumberToString sample_runtime (Num 0) = ''0''"
    by (simp add: sample_runtime_def sampleNumberToString_def showNat.simps digitChar_def)
  have h3: "StringToNumber sample_runtime ''12'' = Num 12"
    by (simp add: sample_runtime_def sampleStringToNumber_def digitsToNat_def)
  have h4: "StringToNumber sample_runtime ''8'' = Num 8"
    by (simp add: sample_runtime_def sampleStringToNumber_def digitsToNat_def)
  have h5: "StringToNumber sample_runtime ''0128'' = Num 128"
    by (simp add: sample_runtime_def sampleStringToNumber_def digitsToNat_def)
  have h6: "fl sample_runtime 64 = Num 64" by (simp add: sample_runtime_def)
  have h7: "2 \<le> maxArguments sample_runtime" by (simp add: sample_runtime_def)
  from average_of_numeric_strings [OF h1 h2 h3 h4 h5 h6 h7]
  have "priceAggregates sample_runtime ?fd =
           Inr \<lparr>minPrice = timesDouble sample_runtime (Num 8) (fl sample_runtime 0.98),
                maxPrice = timesDouble sample_runtime (Num 12) (fl sample_runtime 1.02),
                avgPrice = Num 64\<rparr>"
    by (rule conjunct1)
  then show ?thesis using h1 h2 h3 h4 h5 h6 h7 by (simp only: simp_thms)
qed

section \<open>Properties of the proxy route\<close>

lemma NextResponse_json_accepted:
  "\<not> refusedStatus s \<Longrightarrow> NextResponse_json statusError b s = Inr (NextResponse b s)"
  by (simp add: NextResponse_json_def)

lemma NextResponse_json_refused:
  "refusedStatus s \<Longrightarrow> NextResponse_json statusError b s = Inl (Some (statusError s))"
  by (simp add: NextResponse_json_def)

lemma accepted_200_500: "\<not> refusedStatus 200" "\<not> refusedStatus 500"
  by (simp_all add: refusedStatus_def)

lemma GET_not_ok:
  "\<not> ok response \<Longrightarrow>
     GET JSON_parse statusError (Inr response) =
       (if refusedStatus (resp_status response)
        then NextResponse
               (JObject [(''error'', JString ''Failed to fetch types from external API''),
                         (''details'', JString (statusError (resp_status response)))]) 500
        else NextResponse
               (JObject [(''error'', JString (''API responded with status: ''
                                              @ showNat (resp_status response)))])
               (resp_status response))"
  by (simp add: GET_def GET_try_def NextResponse_json_def errorDetails_def)

lemma GET_not_json:
  "ok response \<Longrightarrow> resp_text response = Inr bodyText \<Longrightarrow> JSON_parse bodyText = None \<Longrightarrow>
     GET JSON_parse statusError (Inr response) =
       NextResponse
         (JObject [(''error'', JString ''Invalid JSON response from server''),
                   (''responseText'', JString (take 100 bodyText))])
         500"
  by (simp add: GET_def GET_try_def NextResponse_json_accepted accepted_200_500)

lemma POST_not_ok:
  "\<not> ok response \<Longrightarrow>
     POST JSON_parse statusError (Inr requestBody) (Inr response) =
       (case resp_text response of
          Inl err \<Rightarrow>
            NextResponse
              (JObject [(''error'', JString ''Failed to create type''),
                        (''details'', JString (errorDetails err))]) 500
        | Inr errorText \<Rightarrow>
            if refusedStatus (resp_status response)
            then NextResponse
                   (JObject [(''error'', JString ''Failed to create type''),
                             (''details'', JString (statusError (resp_status response)))]) 500
            else NextResponse
                   (JObject [(''error'', JString (''API Error: ''
                                                  @ showNat (resp_status response))),
                             (''details'', (case JSON_parse errorText of
                                              Some d \<Rightarrow> d
                                            | None \<Rightarrow> JObject [(''message'', JString errorText)]))])
                   (resp_status response))"
  by (simp add: POST_def POST_try_def Let_def NextResponse_json_def errorDetails_def
      split: sum.splits)

lemma POST_not_json:
  "ok response \<Longrightarrow> resp_text response = Inr bodyText \<Longrightarrow> JSON_parse bodyText = None \<Longrightarrow>
     POST JSON_parse statusError (Inr requestBody) (Inr response) =
       NextResponse (JObject [(''error'', JString ''Invalid JSON response from server'')]) 500"
  by (simp add: POST_def POST_try_def NextResponse_json_accepted accepted_200_500)

text \<open>
  Claim C9, as the code has it. For an upstream response with a status outside
  200\<dots>299, or with a body that is not JSON, \<open>GET\<close> and \<open>POST\<close> answer with a JSON
  object that has a string under \<open>error\<close>. The status of the answer is the upstream
  status when that is outside 200\<dots>299 and \<open>NextResponse.json\<close> accepts it; it is 500
  when the body is not JSON, when \<open>POST\<close> cannot read the body, and when
  \<open>NextResponse.json\<close> refuses the upstream status (304, or a status outside
  200\<dots>599), for then the \<open>catch\<close> block answers. The objects differ: a field
  \<open>details\<close> is in every answer of \<open>POST\<close> to a status outside 200\<dots>299 and in the
  answer of \<open>GET\<close> to a refused status only; a field \<open>responseText\<close> is in the answer
  of \<open>GET\<close> to a body that is not JSON only.
\<close>

theorem proxy_error_envelope:
  assumes "\<not> ok response \<or> nonJsonBody JSON_parse response"
  shows "stringField ''error'' (json_body (GET JSON_parse statusError (Inr response))) \<noteq> None
       \<and> status_code (GET JSON_parse statusError (Inr response))
           = (if ok response then 500
              else if refusedStatus (resp_status response) then 500
              else resp_status response)
       \<and> hasField ''details'' (json_body (GET JSON_parse statusError (Inr response)))
           = (\<not> ok response \<and> refusedStatus (resp_status response))
       \<and> hasField ''responseText'' (json_body (GET JSON_parse statusError (Inr response)))
           = ok response
       \<and> stringField ''error''
            (json_body (POST JSON_parse statusError (Inr requestBody) (Inr response))) \<noteq> None
       \<and> status_code (POST JSON_parse statusError (Inr requestBody) (Inr response))
           = (if ok response then 500
              else case resp_text response of
                     Inl err \<Rightarrow> 500
                   | Inr errorText \<Rightarrow>
                       if refusedStatus (resp_status response) then 500
                       else resp_status response)
       \<and> hasField ''details''
            (json_body (POST JSON_parse statusError (Inr requestBody) (Inr response)))
           = (\<not> ok response)
       \<and> \<not> hasField ''responseText''
            (json_body (POST JSON_parse statusError (Inr requestBody) (Inr response)))"
proof (cases "ok response")
  case False
  then show ?thesis
    by (simp add: GET_not_ok POST_not_ok stringField_def hasField_def split: sum.splits)
next
  case True
  with assms obtain bodyText
    where "resp_text response = Inr bodyText" and "JSON_parse bodyText = None"
    by (auto simp: nonJsonBody_def split: sum.splits)
  with True show ?thesis
    by (simp add: GET_not_json POST_not_json stringField_def hasField_def)
qed

theorem proxy_error_envelope_witness:
  "\<not> ok (Response 404 (Inr ''Not Found''))
   \<and> nonJsonBody sample_parse (Response 200 (Inr ''<html>''))
   \<and> GET sample_parse sample_statusError (Inr (Response 404 (Inr ''Not Found'')))
       = NextResponse (JObject [(''error'', JString ''API responded with status: 404'')]) 404
   \<and> status_code (GET sample_parse sample_statusError (Inr (Response 304 (Inr [])))) = 500
   \<and> hasField ''details''
        (json_body (GET sample_parse sample_statusError (Inr (Response 304 (Inr [])))))
   \<and> status_code (GET sample_parse sample_statusError (Inr (Response 200 (Inr ''<html>'')))) = 500
   \<and> hasField ''responseText''
        (json_body (GET sample_parse sample_statusError (Inr (Response 200 (Inr ''<html>'')))))
   \<and> status_code (POST sample_parse sample_statusError (Inr JNull)
                     (Inr (Response 404 (Inr ''Not Found'')))) = 404
   \<and> hasField ''details''
        (json_body (POST sample_parse sample_statusError (Inr JNull)
                      (Inr (Response 404 (Inr ''Not Found'')))))"
proof -
  have h1: "\<not> ok (Response 404 (Inr ''Not Found''))" by (simp add: ok_def)
  have h2: "nonJsonBody sample_parse (Response 200 (Inr ''<html>''))"
    by (simp add: nonJsonBody_def sample_parse_def)
  have h3: "\<not> ok (Response 304 (Inr []))" by (simp add: ok_def)
  have o: "ok (Response 200 (Inr ''<html>''))" by (simp add: ok_def)
  have r: "\<not> refusedStatus 404" "refusedStatus 304" by (simp_all add: refusedStatus_def)
  have s: "showNat 404 = ''404''" by (simp add: showNat.simps digitChar_def)
  have g: "GET sample_parse sample_statusError (Inr (Response 404 (Inr ''Not Found'')))
       = NextResponse (JObject [(''error'', JString ''API responded with status: 404'')]) 404"
    using h1 r by (simp add: GET_not_ok s)
  from proxy_error_envelope [where requestBody = JNull and statusError = sample_statusError,
         OF disjI1, OF h1, of sample_parse]
       proxy_error_envelope [where requestBody = JNull and statusError = sample_statusError,
         OF disjI1, OF h3, of sample_parse]
       proxy_error_envelope [where requestBody = JNull and statusError = sample_statusError,
         OF disjI2, OF h2]
  show ?thesis using h1 h2 h3 o g r by simp
qed

text \<open>
  The claim as stated fails: the answer of \<open>GET\<close> to the upstream status 404 has no
  field \<open>details\<close>.
\<close>

theorem GET_not_ok_has_no_details:
  "\<not> hasField ''details''
       (json_body (GET sample_parse sample_statusError (Inr (Response 404 (Inr ''Not Found'')))))"
  by (simp add: GET_not_ok ok_def refusedStatus_def hasField_def)

end
